theory Spec2Isabelle
  imports Complex_Main "HOL-Library.Sublist" "HOL-Library.AList"
begin

section \<open>Python strings\<close>

text \<open>
  Python \<open>str\<close> values are modelled as HOL strings. The model covers ASCII text: a
  character is a code point below 128, \<open>str.isspace\<close> and the regular-expression
  class \<open>\s\<close> hold for the ten ASCII whitespace characters, \<open>str.lower\<close> maps
  \<open>A..Z\<close> to \<open>a..z\<close>, and the class \<open>\w\<close> holds for letters, digits and the
  underscore.
\<close>

definition is_space :: "char \<Rightarrow> bool" where
  "is_space c = (c \<in> set [CHR '' '', CHR 0x09, CHR 0x0A, CHR 0x0B, CHR 0x0C, CHR 0x0D,
                            CHR 0x1C, CHR 0x1D, CHR 0x1E, CHR 0x1F])"

definition lower_char :: "char \<Rightarrow> char" where
  "lower_char c =
     (case map_of (zip ''ABCDEFGHIJKLMNOPQRSTUVWXYZ'' ''abcdefghijklmnopqrstuvwxyz'') c of
        Some d \<Rightarrow> d
      | None \<Rightarrow> c)"

text \<open>\<open>s.lower()\<close>\<close>

definition lower :: "string \<Rightarrow> string" where
  "lower s = map lower_char s"

text \<open>\<open>s.split()\<close>: the maximal runs of non-whitespace characters.\<close>

fun words_acc :: "string \<Rightarrow> string \<Rightarrow> string list" where
  "words_acc cur [] = (if cur = [] then [] else [cur])"
| "words_acc cur (c # cs) =
     (if is_space c then (if cur = [] then words_acc [] cs else cur # words_acc [] cs)
      else words_acc (cur @ [c]) cs)"

definition split_ws :: "string \<Rightarrow> string list" where
  "split_ws s = words_acc [] s"

text \<open>\<open>s.split(sep)\<close> for a separator of one character; the result is never empty.\<close>

fun split_acc :: "char \<Rightarrow> string \<Rightarrow> string \<Rightarrow> string list" where
  "split_acc sep cur [] = [cur]"
| "split_acc sep cur (c # cs) =
     (if c = sep then cur # split_acc sep [] cs else split_acc sep (cur @ [c]) cs)"

definition split_on :: "char \<Rightarrow> string \<Rightarrow> string list" where
  "split_on sep s = split_acc sep [] s"

text \<open>\<open>s.lstrip()\<close>, \<open>s.rstrip()\<close>, \<open>s.strip()\<close> and \<open>s.strip('"')\<close>\<close>

definition lstrip :: "string \<Rightarrow> string" where
  "lstrip s = dropWhile is_space s"

definition rstrip :: "string \<Rightarrow> string" where
  "rstrip s = rev (dropWhile is_space (rev s))"

definition strip :: "string \<Rightarrow> string" where
  "strip s = rstrip (lstrip s)"

definition strip_char :: "char \<Rightarrow> string \<Rightarrow> string" where
  "strip_char q s = rev (dropWhile (\<lambda>c. c = q) (rev (dropWhile (\<lambda>c. c = q) s)))"

text \<open>\<open>sub in s\<close> and \<open>s.startswith(p)\<close>\<close>

fun contains :: "string \<Rightarrow> string \<Rightarrow> bool" where
  "contains [] sub = (sub = [])"
| "contains (c # cs) sub = (prefix sub (c # cs) \<or> contains cs sub)"

definition startswith :: "string \<Rightarrow> string \<Rightarrow> bool" where
  "startswith s p = prefix p s"

text \<open>\<open>sep.join(parts)\<close>\<close>

fun join :: "string \<Rightarrow> string list \<Rightarrow> string" where
  "join sep [] = []"
| "join sep [x] = x"
| "join sep (x # y # ys) = x @ sep @ join sep (y # ys)"

text \<open>\<open>any(t in s for t in terms)\<close>\<close>

definition any_in :: "string list \<Rightarrow> string \<Rightarrow> bool" where
  "any_in terms s = list_ex (contains s) terms"

section \<open>Scores\<close>

text \<open>
  The quality scores are Python floats. They are modelled as exact rationals. The
  scores are sums and means of a few decimal fractions; a float comparison can
  decide differently from the exact one only where the exact values are equal. The
  one such tie that the examples below meet is a title score of 0.5 + 0.2 against the
  bound 0.7, and the float sum 0.5 + 0.2 is the float 0.7. \<open>round(x, 2)\<close> rounds
  to two decimals, a tie going to the even neighbour.
\<close>

definition round_half_even :: "rat \<Rightarrow> int" where
  "round_half_even x =
     (let n = \<lfloor>x\<rfloor>; r = x - of_int n in
      if r < 1 / 2 then n else if 1 / 2 < r then n + 1 else if even n then n else n + 1)"

definition round2 :: "rat \<Rightarrow> rat" where
  "round2 x = of_int (round_half_even (x * 100)) / 100"

section \<open>Course descriptions: \<open>DescriptionQualityChecker\<close>\<close>

record description_report =
  dq_quality_score :: rat
  dq_passes_threshold :: bool
  dq_feedback :: "(string \<times> string) list"

definition marketing_terms :: "string list" where
  "marketing_terms = [''master'', ''learn'', ''discover'', ''develop'', ''build'', ''create'',
                      ''transform'', ''unlock'']"

definition tech_terms :: "string list" where
  "tech_terms = [''javascript'', ''python'', ''react'', ''node'', ''web'', ''app'', ''data'',
                 ''code'', ''programming'', ''development'']"

text \<open>The three criteria, as \<open>check_description_quality\<close> computes them.\<close>

definition description_words :: "string \<Rightarrow> string list" where
  "description_words description = split_ws description"

definition description_sentences :: "string \<Rightarrow> string list" where
  "description_sentences description =
     filter (\<lambda>s. strip s \<noteq> []) (split_on CHR ''.'' description)"

definition length_score :: "string \<Rightarrow> rat" where
  "length_score description =
     (if 15 \<le> length (description_words description)
         \<and> length (description_words description) \<le> 50
         \<and> 1 \<le> length (description_sentences description)
         \<and> length (description_sentences description) \<le> 2
      then 1 else 1 / 2)"

definition has_marketing_appeal :: "string \<Rightarrow> bool" where
  "has_marketing_appeal description = any_in marketing_terms (lower description)"

definition marketing_score :: "string \<Rightarrow> rat" where
  "marketing_score description = (if has_marketing_appeal description then 1 else 1 / 2)"

definition has_specificity :: "string \<Rightarrow> bool" where
  "has_specificity description = any_in tech_terms (lower description)"

definition specificity_score :: "string \<Rightarrow> rat" where
  "specificity_score description = (if has_specificity description then 1 else 1 / 2)"

definition overall_score :: "string \<Rightarrow> rat" where
  "overall_score description =
     (length_score description + marketing_score description + specificity_score description)
       / 3 * 100"

definition check_description_quality :: "string \<Rightarrow> description_report" where
  "check_description_quality description =
     \<lparr> dq_quality_score = round2 (overall_score description),
       dq_passes_threshold = (80 \<le> overall_score description),
       dq_feedback =
         [(''length'',
             if 8 / 10 \<le> length_score description then ''Good''
             else ''Description should be 1-2 concise sentences (15-50 words)''),
          (''marketing_appeal'',
             if 8 / 10 \<le> marketing_score description then ''Good''
             else ''Add action-oriented terms that motivate learners''),
          (''specificity'',
             if 8 / 10 \<le> specificity_score description then ''Good''
             else ''Include specific technologies or skills covered'')] \<rparr>"

text \<open>The criteria in the words of the description's documentation.\<close>

definition length_criterion :: "string \<Rightarrow> bool" where
  "length_criterion description =
     (length (split_ws description) \<in> {15..50}
      \<and> length (filter (\<lambda>s. strip s \<noteq> []) (split_on CHR ''.'' description)) \<in> {1..2})"

definition criteria_met :: "string \<Rightarrow> nat" where
  "criteria_met description =
     of_bool (length_criterion description)
     + of_bool (any_in marketing_terms (lower description))
     + of_bool (any_in tech_terms (lower description))"

section \<open>Exceptions\<close>

text \<open>
  A raised exception is a value. \<open>CustomException(e, sys)\<close> wraps the exception
  \<open>e\<close> it is built from; \<open>ExternalError\<close> stands for whatever an external library
  (the LLM provider, a database driver, the JSON parser) raises.
\<close>

datatype exc =
    HTTPException nat string
  | Exception string
  | KeyError string
  | TypeError string
  | ExternalError string
  | CustomException exc

section \<open>Lessons: \<open>LessonItem\<close> and the markdown sections of a lesson\<close>

datatype lesson_kind = Read | ReadAndExecute

record lesson_item =
  lesson_id :: string
  lesson_title :: string
  lesson_type :: lesson_kind
  lesson_content :: string
  lesson_instruction :: "string option"
  lesson_expected_output :: "string option"
  lesson_answer :: "string option"
  lesson_outline :: "string option"

definition newline :: char where
  "newline = CHR 0x0A"

text \<open>
  \<open>_parse_markdown_sections\<close>: the loop state is the dictionary \<open>sections\<close> (in
  insertion order), \<open>current_section\<close> (\<open>None\<close> at the start) and
  \<open>current_content\<close>. The tests \<open>if current_section\<close> are truth tests: \<open>None\<close>
  and the empty string both fail them.
\<close>

record section_parser =
  sections :: "(string \<times> string) list"
  current_section :: "string option"
  current_content :: "string list"

definition section_open :: "section_parser \<Rightarrow> bool" where
  "section_open st = (case current_section st of None \<Rightarrow> False | Some name \<Rightarrow> name \<noteq> [])"

definition save_section :: "section_parser \<Rightarrow> (string \<times> string) list" where
  "save_section st =
     (case current_section st of
        None \<Rightarrow> sections st
      | Some name \<Rightarrow>
          if name \<noteq> []
          then AList.update name (strip (join [newline] (current_content st))) (sections st)
          else sections st)"

definition parse_line :: "section_parser \<Rightarrow> string \<Rightarrow> section_parser" where
  "parse_line st line =
     (if startswith line ''## ''
      then \<lparr> sections = save_section st,
             current_section = Some (strip (drop 3 line)),
             current_content = [] \<rparr>
      else if section_open st
      then st \<lparr> current_content := current_content st @ [line] \<rparr>
      else st)"

definition parser_start :: section_parser where
  "parser_start = \<lparr> sections = [], current_section = None, current_content = [] \<rparr>"

definition parse_lines :: "string list \<Rightarrow> (string \<times> string) list" where
  "parse_lines lines = save_section (foldl parse_line parser_start lines)"

definition parse_markdown_sections :: "string \<Rightarrow> (string \<times> string) list" where
  "parse_markdown_sections markdown_text = parse_lines (split_on newline markdown_text)"

text \<open>\<open>_extract_main_content\<close>\<close>

definition excluded_sections :: "string list" where
  "excluded_sections = [''instruction'', ''expected_output'', ''answer'']"

definition extract_main_content :: "(string \<times> string) list \<Rightarrow> string" where
  "extract_main_content secs =
     join [newline, newline]
       (map (\<lambda>(section, content). ''## '' @ section @ [newline] @ content)
         (filter (\<lambda>(section, content). \<not> List.member excluded_sections (lower section)) secs))"

section \<open>Lesson quality: \<open>LessonQualityChecker\<close>\<close>

definition is_digit :: "char \<Rightarrow> bool" where
  "is_digit c = (c \<in> set ''0123456789'')"

definition is_word :: "char \<Rightarrow> bool" where
  "is_word c =
     (is_digit c \<or> c = CHR ''_''
      \<or> c \<in> set ''abcdefghijklmnopqrstuvwxyz'' \<or> c \<in> set ''ABCDEFGHIJKLMNOPQRSTUVWXYZ'')"

text \<open>
  \<open>re.findall(r'##\s+\w+', content)\<close> is non-empty when, somewhere in the content,
  \<open>##\<close> is followed by a run of whitespace and then a word character.
\<close>

definition header_at :: "string \<Rightarrow> bool" where
  "header_at s =
     (prefix ''##'' s
      \<and> (case drop 2 s of
           [] \<Rightarrow> False
         | c # cs \<Rightarrow>
             is_space c
             \<and> (case dropWhile is_space cs of [] \<Rightarrow> False | d # ds \<Rightarrow> is_word d)))"

fun has_section_header :: "string \<Rightarrow> bool" where
  "has_section_header [] = False"
| "has_section_header (c # cs) = (header_at (c # cs) \<or> has_section_header cs)"

text \<open>\<open>content.count('\n\n')\<close>: occurrences that do not overlap, from the left.\<close>

fun count_blank_lines :: "string \<Rightarrow> nat" where
  "count_blank_lines (a # b # cs) =
     (if a = newline \<and> b = newline then Suc (count_blank_lines cs)
      else count_blank_lines (b # cs))"
| "count_blank_lines cs = 0"

record structure_check =
  has_sections :: bool
  content_length :: nat
  paragraph_count :: nat
  has_formatting :: bool
  structure_quality :: string

definition check_content_structure :: "string \<Rightarrow> structure_check" where
  "check_content_structure content =
     (let sections_found = has_section_header content;
          len = length content;
          paragraphs = count_blank_lines content;
          formatting = any_in [''**'', ''*'', ''```'', ''- '', ''1. ''] content
      in \<lparr> has_sections = sections_found,
           content_length = len,
           paragraph_count = paragraphs,
           has_formatting = formatting,
           structure_quality =
             (if sections_found \<and> 500 < len \<and> 3 \<le> paragraphs \<and> formatting
              then ''good'' else ''needs_improvement'') \<rparr>)"

text \<open>
  \<open>check_code_quality\<close>. The dictionary returned for no code has the one key
  \<open>has_code\<close>; every later read of another key is \<open>get(key, False)\<close>.
\<close>

record code_quality =
  has_code :: bool
  has_comments :: bool
  has_proper_indentation :: bool
  has_error_handling :: bool

definition no_code :: code_quality where
  "no_code = \<lparr> has_code = False, has_comments = False, has_proper_indentation = False,
               has_error_handling = False \<rparr>"

definition comment_markers :: "string list" where
  "comment_markers = [''//'', ''/*'', ''#'', ''<!--'',
                      [CHR 0x22, CHR 0x22, CHR 0x22], [CHR 0x27, CHR 0x27, CHR 0x27]]"

definition error_handling_patterns :: "string list" where
  "error_handling_patterns = [''try'', ''catch'', ''except'', ''finally'', ''rescue'', ''raise'',
     ''throw'', ''error'', ''handle'', ''on error'', ''if err'', ''error handling'']"

definition indentation_levels :: "string list \<Rightarrow> nat list" where
  "indentation_levels lines =
     map (\<lambda>line. length line - length (lstrip line))
       (filter (\<lambda>line. strip line \<noteq> []) (tl lines))"

definition check_code_quality :: "string \<Rightarrow> bool \<Rightarrow> code_quality" where
  "check_code_quality code is_technical =
     (if code = [] \<or> \<not> is_technical then no_code
      else
        let lines = split_on newline code
        in \<lparr> has_code = True,
             has_comments = any_in comment_markers code,
             has_proper_indentation =
               (if 1 < length lines then length (remdups (indentation_levels lines)) \<le> 3
                else True),
             has_error_handling = any_in error_handling_patterns (lower code) \<rparr>)"

text \<open>
  \<open>re.search(r'\b\d+[\.\)]\s', instruction)\<close>: a run of digits that does not follow a
  word character, then a full stop or a closing parenthesis, then whitespace.
\<close>

definition step_at :: "string \<Rightarrow> bool" where
  "step_at s =
     (case s of
        [] \<Rightarrow> False
      | c # cs \<Rightarrow>
          is_digit c
          \<and> (case dropWhile is_digit cs of
               p # q # rest \<Rightarrow> (p = CHR ''.'' \<or> p = CHR '')'') \<and> is_space q
             | _ \<Rightarrow> False))"

fun has_numbered_step :: "bool \<Rightarrow> string \<Rightarrow> bool" where
  "has_numbered_step after_word [] = False"
| "has_numbered_step after_word (c # cs) =
     ((\<not> after_word \<and> step_at (c # cs)) \<or> has_numbered_step (is_word c) cs)"

record exercise_quality =
  is_exercise :: bool
  has_clear_steps :: bool
  has_clear_output :: bool
  solution_quality :: code_quality

definition not_exercise :: exercise_quality where
  "not_exercise = \<lparr> is_exercise = False, has_clear_steps = False, has_clear_output = False,
                    solution_quality = no_code \<rparr>"

definition check_exercise_quality :: "lesson_item \<Rightarrow> exercise_quality" where
  "check_exercise_quality lesson =
     (if lesson_type lesson \<noteq> ReadAndExecute then not_exercise
      else
        \<lparr> is_exercise = True,
          has_clear_steps =
            (case lesson_instruction lesson of
               None \<Rightarrow> False
             | Some instruction \<Rightarrow>
                 instruction \<noteq> []
                 \<and> (has_numbered_step False instruction \<or> contains instruction ''Step'')),
          has_clear_output =
            (case lesson_expected_output lesson of
               None \<Rightarrow> False
             | Some expected \<Rightarrow> expected \<noteq> [] \<and> 20 < length expected),
          solution_quality =
            check_code_quality (case lesson_answer lesson of None \<Rightarrow> [] | Some a \<Rightarrow> a) True \<rparr>)"

text \<open>\<open>re.findall(r'```([\s\S]*?)```', content)\<close>: the text between successive fences.\<close>

fun scan_code_blocks :: "string option \<Rightarrow> string \<Rightarrow> string list" where
  "scan_code_blocks inside [] = []"
| "scan_code_blocks inside (c # cs) =
     (if prefix ''```'' (c # cs)
      then (case inside of
              None \<Rightarrow> scan_code_blocks (Some []) (drop 2 cs)
            | Some body \<Rightarrow> body # scan_code_blocks None (drop 2 cs))
      else (case inside of
              None \<Rightarrow> scan_code_blocks None cs
            | Some body \<Rightarrow> scan_code_blocks (Some (body @ [c])) cs))"

definition find_code_blocks :: "string \<Rightarrow> string list" where
  "find_code_blocks content = scan_code_blocks None content"

text \<open>\<open>_extract_keywords\<close> and \<open>_check_module_relevance\<close>\<close>

record module_context =
  ctx_module_id :: string
  ctx_title :: string
  ctx_description :: string

definition stop_words :: "string list" where
  "stop_words = [''a'', ''an'', ''the'', ''and'', ''or'', ''but'', ''if'', ''then'', ''else'', ''when'',
     ''at'', ''from'', ''by'', ''for'', ''with'', ''about'', ''against'', ''between'',
     ''into'', ''through'', ''during'', ''before'', ''after'', ''above'', ''below'',
     ''to'', ''of'', ''in'', ''on'', ''is'', ''are'', ''was'', ''were'', ''be'', ''been'',
     ''being'', ''have'', ''has'', ''had'', ''having'', ''do'', ''does'', ''did'',
     ''doing'', ''this'', ''that'', ''these'', ''those'', ''will'', ''would'', ''shall'',
     ''should'', ''can'', ''could'', ''may'', ''might'']"

definition extract_keywords :: "string \<Rightarrow> string list" where
  "extract_keywords text =
     (let clean_text = map (\<lambda>c. if is_word c \<or> is_space c then c else CHR '' '') (lower text)
      in remdups (filter (\<lambda>word. \<not> List.member stop_words word \<and> 2 < length word)
                   (split_ws clean_text)))"

record module_relevance =
  is_relevant :: bool
  keyword_relevance :: rat
  irrelevant_sections :: "string list"

definition relevant_by_default :: module_relevance where
  "relevant_by_default = \<lparr> is_relevant = True, keyword_relevance = 0, irrelevant_sections = [] \<rparr>"

definition keyword_share :: "string list \<Rightarrow> string \<Rightarrow> rat" where
  "keyword_share all_keywords text =
     of_nat (length (filter (\<lambda>keyword. contains (lower text) (lower keyword)) all_keywords))
       / of_nat (max 1 (length all_keywords))"

definition check_module_relevance :: "lesson_item \<Rightarrow> module_context \<Rightarrow> module_relevance" where
  "check_module_relevance lesson ctx =
     (let all_keywords =
            remdups (extract_keywords (ctx_title ctx) @ extract_keywords (ctx_description ctx));
          content_text = lesson_title lesson @ '' '' @ lesson_content lesson;
          relevance = keyword_share all_keywords content_text;
          irrelevant =
            map fst (filter (\<lambda>(section_name, section_content).
                               keyword_share all_keywords section_content < 2 / 10)
                      (parse_markdown_sections (lesson_content lesson)))
      in \<lparr> is_relevant = (3 / 10 \<le> relevance \<and> length irrelevant \<le> 1),
           keyword_relevance = relevance,
           irrelevant_sections = irrelevant \<rparr>)"

text \<open>\<open>evaluate_lesson\<close>\<close>

record lesson_evaluation =
  le_lesson_id :: string
  le_quality_score :: int
  le_passes_threshold :: bool
  le_structure_check :: structure_check
  le_code_quality :: code_quality
  le_exercise_quality :: exercise_quality
  le_module_relevance :: module_relevance
  le_improvement_suggestions :: "string list"

definition deduct :: "bool \<Rightarrow> int \<Rightarrow> int \<Rightarrow> int" where
  "deduct issue points score = (if issue then score - points else score)"

definition lesson_deductions ::
    "structure_check \<Rightarrow> code_quality \<Rightarrow> exercise_quality \<Rightarrow> module_relevance \<Rightarrow> int" where
  "lesson_deductions sc cq eq mr =
     (let score = 100;
          score = deduct (structure_quality sc = ''needs_improvement'') 20 score;
          score = deduct (content_length sc < 300) 15 score;
          score = deduct (\<not> has_sections sc) 15 score;
          score = deduct (\<not> has_formatting sc) 10 score;
          score = deduct (has_code cq \<and> \<not> has_comments cq) 10 score;
          score = deduct (has_code cq \<and> \<not> has_proper_indentation cq) 10 score;
          score = deduct (has_code cq \<and> \<not> has_error_handling cq) 5 score;
          score = deduct (is_exercise eq \<and> \<not> has_clear_steps eq) 15 score;
          score = deduct (is_exercise eq \<and> \<not> has_clear_output eq) 10 score;
          score = deduct (\<not> is_relevant mr) 25 score
      in score)"

definition suggest :: "bool \<Rightarrow> string \<Rightarrow> string list" where
  "suggest issue text = (if issue then [text] else [])"

definition lesson_suggestions ::
    "structure_check \<Rightarrow> code_quality \<Rightarrow> exercise_quality \<Rightarrow> module_relevance \<Rightarrow> string list" where
  "lesson_suggestions sc cq eq mr =
     (if structure_quality sc = ''needs_improvement''
      then suggest (\<not> has_sections sc) ''Add section headers to organize content''
         @ suggest (content_length sc < 300)
             ''Expand the content with more detailed explanations''
         @ suggest (paragraph_count sc < 3)
             ''Break content into more paragraphs for readability''
         @ suggest (\<not> has_formatting sc)
             ''Add formatting elements like bold, italic, lists, or code blocks''
      else [])
     @ (if has_code cq
        then suggest (\<not> has_comments cq) ''Add comments to code examples''
           @ suggest (\<not> has_proper_indentation cq) ''Fix code indentation''
           @ suggest (\<not> has_error_handling cq) ''Add error handling to code examples''
        else [])
     @ (if is_exercise eq
        then suggest (\<not> has_clear_steps eq) ''Add numbered steps to exercise instructions''
           @ suggest (\<not> has_clear_output eq)
               ''Provide clearer description of expected output''
        else [])
     @ (if \<not> is_relevant mr
        then [''Rewrite content to focus specifically on the module topic'']
           @ suggest (irrelevant_sections mr \<noteq> [])
               (''Revise these sections to be more module-specific: ''
                  @ join '', '' (irrelevant_sections mr))
        else [])"

definition evaluate_lesson :: "lesson_item \<Rightarrow> module_context option \<Rightarrow> lesson_evaluation" where
  "evaluate_lesson lesson module_context =
     (let sc = check_content_structure (lesson_content lesson);
          code_blocks = find_code_blocks (lesson_content lesson);
          cq = (if code_blocks \<noteq> [] then check_code_quality (join [newline] code_blocks) True
                else no_code);
          eq = (if lesson_type lesson = ReadAndExecute then check_exercise_quality lesson
                else not_exercise);
          mr = (case module_context of
                  Some ctx \<Rightarrow> check_module_relevance lesson ctx
                | None \<Rightarrow> relevant_by_default);
          quality_score = max 0 (min 100 (lesson_deductions sc cq eq mr))
      in \<lparr> le_lesson_id = lesson_id lesson,
           le_quality_score = quality_score,
           le_passes_threshold = (70 \<le> quality_score),
           le_structure_check = sc,
           le_code_quality = cq,
           le_exercise_quality = eq,
           le_module_relevance = mr,
           le_improvement_suggestions = lesson_suggestions sc cq eq mr \<rparr>)"

text \<open>A text in which no line starts with \<open>## \<close>.\<close>

definition no_section_header :: "string \<Rightarrow> bool" where
  "no_section_header text =
     list_all (\<lambda>line. \<not> startswith line ''## '') (split_on newline text)"

section \<open>Modules: the module dictionaries and \<open>ModuleQualityChecker\<close>\<close>

text \<open>
  \<open>ModuleItem\<close> is an entry of the curriculum outline. An enhanced module is a
  dictionary read from JSON: a key may be absent (\<open>None\<close>); a key that is present
  holds a value of the expected type.
\<close>

record module_item =
  mi_title :: string
  mi_description :: string

record module =
  m_title :: "string option"
  m_description :: "string option"
  m_learning_objectives :: "string list option"
  m_prerequisites :: "(string list \<times> string list) option"
  m_key_topics :: "string list option"
  m_practical_applications :: "string list option"
  m_estimated_completion_time :: "string option"
  m_module_id :: "string option"

text \<open>\<open>d.get(key, default)\<close>\<close>

definition get_or :: "'a option \<Rightarrow> 'a \<Rightarrow> 'a" where
  "get_or v d = (case v of None \<Rightarrow> d | Some x \<Rightarrow> x)"

definition action_verbs :: "string list" where
  "action_verbs = [''build'', ''create'', ''develop'', ''implement'', ''master'', ''learn'',
                   ''understand'', ''explore'']"

definition check_title_quality :: "string \<Rightarrow> rat" where
  "check_title_quality title =
     (if title = [] then 0
      else
        (if 4 \<le> length (split_ws title) \<and> length (split_ws title) \<le> 8 then 5 / 10 else 3 / 10)
        + (if any_in action_verbs (lower title) then 5 / 10 else 2 / 10))"

definition check_module_description_quality :: "string \<Rightarrow> rat" where
  "check_module_description_quality description =
     (if description = [] then 0
      else
        (if 30 \<le> length (split_ws description) then 4 / 10 else 2 / 10)
        + (if any_in [''javascript'', ''python'', ''code'', ''function'', ''api'']
                (lower description) then 3 / 10 else 1 / 10)
        + (if any_in [''learn'', ''skill'', ''practice'', ''understand'', ''master'']
                (lower description) then 3 / 10 else 1 / 10))"

definition bloom_verbs :: "string list" where
  "bloom_verbs = [''analyze'', ''apply'', ''assess'', ''build'', ''calculate'', ''categorize'',
     ''compare'', ''compile'', ''compose'', ''construct'', ''create'', ''critique'', ''define'',
     ''demonstrate'', ''design'', ''develop'', ''differentiate'', ''evaluate'', ''explain'',
     ''identify'', ''implement'', ''integrate'']"

definition check_learning_objectives :: "string list \<Rightarrow> rat" where
  "check_learning_objectives objectives =
     (if objectives = [] then 0
      else
        (if 4 \<le> length objectives \<and> length objectives \<le> 8 then 3 / 10 else 1 / 10)
        + min (of_nat (length (filter (\<lambda>obj. any_in bloom_verbs (lower obj)) objectives)) / 10)
              (7 / 10))"

definition check_key_topics :: "string list \<Rightarrow> rat" where
  "check_key_topics topics =
     (if topics = [] then 0
      else
        (if 6 \<le> length topics \<and> length topics \<le> 15 then 4 / 10 else 2 / 10)
        + min (6 / 10)
              (of_nat (length (filter (\<lambda>topic. 3 \<le> length (split_ws topic)) topics)) * 5 / 100))"

definition industry_terms :: "string list" where
  "industry_terms = [''industry'', ''professional'', ''workplace'', ''company'', ''business'',
                     ''production'', ''real-world'']"

definition check_practical_relevance :: "string list \<Rightarrow> rat" where
  "check_practical_relevance applications =
     (if applications = [] then 0
      else
        (if 3 \<le> length applications then 4 / 10 else 2 / 10)
        + min (6 / 10)
              (of_nat (length (filter (\<lambda>app. any_in industry_terms (lower app)) applications))
                 * 15 / 100))"

record module_criteria =
  title_quality :: rat
  description_quality :: rat
  learning_objectives_quality :: rat
  key_topics_quality :: rat
  practical_relevance :: rat

definition generate_improvement_suggestions :: "module_criteria \<Rightarrow> string list" where
  "generate_improvement_suggestions criteria =
     suggest (title_quality criteria < 7 / 10)
       ''Make the title more action-oriented and specific about what learners will achieve.''
     @ suggest (description_quality criteria < 7 / 10)
       ''Enhance the description with more specific details about technologies and skills covered.''
     @ suggest (learning_objectives_quality criteria < 7 / 10)
       (''Improve learning objectives using specific, measurable action verbs from Bloom''
          @ [CHR 0x27] @ ''s taxonomy.'')
     @ suggest (key_topics_quality criteria < 7 / 10)
       ''Expand key topics to be more comprehensive and specific.''
     @ suggest (practical_relevance criteria < 7 / 10)
       ''Add more industry-relevant practical applications with specific examples.''"

record module_report =
  mr_quality_score :: rat
  mr_passes_threshold :: bool
  mr_criteria :: module_criteria
  mr_improvement_suggestions :: "string list"

definition module_criteria_of :: "module \<Rightarrow> module_criteria" where
  "module_criteria_of m =
     \<lparr> title_quality = check_title_quality (get_or (m_title m) []),
       description_quality = check_module_description_quality (get_or (m_description m) []),
       learning_objectives_quality =
         check_learning_objectives (get_or (m_learning_objectives m) []),
       key_topics_quality = check_key_topics (get_or (m_key_topics m) []),
       practical_relevance =
         check_practical_relevance (get_or (m_practical_applications m) []) \<rparr>"

definition criteria_mean :: "module_criteria \<Rightarrow> rat" where
  "criteria_mean criteria =
     (title_quality criteria + description_quality criteria
      + learning_objectives_quality criteria + key_topics_quality criteria
      + practical_relevance criteria) / 5"

definition check_module_quality :: "module \<Rightarrow> module_report" where
  "check_module_quality m =
     (let criteria = module_criteria_of m;
          quality_score = criteria_mean criteria * 100
      in \<lparr> mr_quality_score = round2 quality_score,
           mr_passes_threshold = (80 \<le> quality_score),
           mr_criteria = criteria,
           mr_improvement_suggestions = generate_improvement_suggestions criteria \<rparr>)"

section \<open>The world around the pipeline\<close>

text \<open>
  The LLM provider, the identifier source and the document database are external.
  The world holds the replies the provider is going to give (an exception or the
  content of a message), the hexadecimal strings \<open>uuid4\<close> is going to yield, the
  outcomes of the coming \<open>insert_one\<close> calls (\<open>Some msg\<close>: the driver raises an error
  with that message), and the four collections. Reading a collection always succeeds.
  The prompt of a call is not part of the model: a reply may be anything, whatever
  was asked. The trace \<open>events\<close> records, in the order in which the source executes
  them, the start of each generation stage, each call of the provider and each
  document written.
\<close>

datatype stage = DescriptionStage | ModuleStage | LessonStage

datatype collection_name = Courses | Modules | Lessons | Domains

datatype event = Begins stage | LlmCall | DbInsert collection_name

record course_doc =
  cd_course_id :: string
  cd_course_name :: string
  cd_level :: string
  cd_image_uri :: string
  cd_created_at :: string
  cd_is_popular :: bool
  cd_is_trending :: bool
  cd_description :: string

text \<open>\<open>ModuleOutput\<close>, the curriculum with enhanced modules, and the modules document.\<close>

record module_output =
  mo_course :: string
  mo_duration :: string
  mo_num_modules :: int
  mo_tools :: "string list"
  mo_modules :: "module_item list"

record curriculum =
  cu_course :: string
  cu_duration :: string
  cu_num_modules :: int
  cu_tools :: "string list"
  cu_modules :: "module list"

record modules_doc =
  md_course_id :: string
  md_level :: string
  md_curriculum :: curriculum

text \<open>\<open>ModuleLessonContent\<close> and \<open>ModulesLessonOutput\<close>\<close>

record module_lesson_content =
  mlc_module_id :: string
  mlc_lessons :: "lesson_item list"

record modules_lesson_output =
  mlo_course_id :: string
  mlo_modules :: "module_lesson_content list"

datatype document =
    CourseDoc course_doc
  | ModulesDoc modules_doc
  | LessonsDoc modules_lesson_output
  | RawDoc "(string \<times> string) list"

record world =
  llm_replies :: "(exc + string) list"
  uuids :: "string list"
  insert_faults :: "string option list"
  events :: "event list"
  courses_collection :: "document list"
  modules_collection :: "document list"
  lessons_collection :: "document list"
  domain_collection :: "document list"

text \<open>\<open>model.invoke(prompt)\<close>: one call of the provider.\<close>

definition invoke :: "world \<Rightarrow> (exc + string) \<times> world" where
  "invoke w =
     (case llm_replies w of
        [] \<Rightarrow> (Inl (ExternalError ''no reply''), w \<lparr> events := events w @ [LlmCall] \<rparr>)
      | r # rs \<Rightarrow> (r, w \<lparr> llm_replies := rs, events := events w @ [LlmCall] \<rparr>))"

definition llm_calls :: "world \<Rightarrow> nat" where
  "llm_calls w = length (filter (\<lambda>e. e = LlmCall) (events w))"

text \<open>\<open>unique_id_generator(prefix)\<close>\<close>

definition unique_id_generator :: "string \<Rightarrow> world \<Rightarrow> string \<times> world" where
  "unique_id_generator prefix_str w =
     (case uuids w of
        [] \<Rightarrow> (prefix_str @ ''_'' @ ''00000000'', w)
      | u # us \<Rightarrow> (prefix_str @ ''_'' @ u, w \<lparr> uuids := us \<rparr>))"

text \<open>\<open>collection.insert_one(document)\<close> of the driver; it returns the inserted id.\<close>

definition collection :: "collection_name \<Rightarrow> world \<Rightarrow> document list" where
  "collection c w =
     (case c of
        Courses \<Rightarrow> courses_collection w
      | Modules \<Rightarrow> modules_collection w
      | Lessons \<Rightarrow> lessons_collection w
      | Domains \<Rightarrow> domain_collection w)"

definition add_document :: "collection_name \<Rightarrow> document \<Rightarrow> world \<Rightarrow> world" where
  "add_document c d w =
     (case c of
        Courses \<Rightarrow> w \<lparr> courses_collection := courses_collection w @ [d],
                       events := events w @ [DbInsert c] \<rparr>
      | Modules \<Rightarrow> w \<lparr> modules_collection := modules_collection w @ [d],
                       events := events w @ [DbInsert c] \<rparr>
      | Lessons \<Rightarrow> w \<lparr> lessons_collection := lessons_collection w @ [d],
                       events := events w @ [DbInsert c] \<rparr>
      | Domains \<Rightarrow> w \<lparr> domain_collection := domain_collection w @ [d],
                       events := events w @ [DbInsert c] \<rparr>)"

definition insert_one :: "collection_name \<Rightarrow> document \<Rightarrow> world \<Rightarrow> (exc + nat) \<times> world" where
  "insert_one c d w =
     (case insert_faults w of
        [] \<Rightarrow> (Inr (length (collection c w)), add_document c d w)
      | None # fs \<Rightarrow>
          (Inr (length (collection c w)), add_document c d (w \<lparr> insert_faults := fs \<rparr>))
      | Some msg # fs \<Rightarrow> (Inl (ExternalError msg), w \<lparr> insert_faults := fs \<rparr>))"

text \<open>\<open>str(e)\<close> of an error of the driver\<close>

fun exc_str :: "exc \<Rightarrow> string" where
  "exc_str (ExternalError msg) = msg"
| "exc_str (Exception msg) = msg"
| "exc_str (KeyError key) = [CHR 0x27] @ key @ [CHR 0x27]"
| "exc_str (TypeError msg) = msg"
| "exc_str (HTTPException code detail) = detail"
| "exc_str (CustomException e) = exc_str e"

text \<open>
  \<open>MongoUtils.insert_one_document\<close>: the acknowledgement \<open>{"udpated": True}\<close> or a
  plain \<open>Exception\<close>.
\<close>

datatype ack = Updated

definition insert_one_document ::
    "collection_name \<Rightarrow> document \<Rightarrow> world \<Rightarrow> (exc + ack) \<times> world" where
  "insert_one_document c d w =
     (case insert_one c d w of
        (Inr inserted_id, w') \<Rightarrow> (Inr Updated, w')
      | (Inl e, w') \<Rightarrow> (Inl (Exception (''Mongo insert failed: '' @ exc_str e)), w'))"



section \<open>Library functions taken as parameters\<close>

text \<open>
  The JSON parser, the structured-output parsers of the provider's client and the
  regular-expression rewrites whose result no property below depends on are
  parameters: \<open>json_loads\<close> is \<open>json.loads\<close> (\<open>None\<close>: it raises),
  \<open>parse_module_output\<close> and \<open>parse_lesson_outline\<close> are
  \<open>with_structured_output\<close> for \<open>ModuleOutput\<close> and \<open>ModuleLessonContent\<close>,
  \<open>markdown_resub\<close> is the chain of \<open>re.sub\<close> calls of
  \<open>_ensure_markdown_consistency\<close>, and \<open>extract_improved\<close> is the five
  \<open>re.search\<close> extractions of \<open>improve_lesson\<close> (\<open>None\<close>: heading or match absent).
\<close>

record improved_fields =
  new_title :: "string option"
  new_content :: "string option"
  new_instruction :: "string option"
  new_expected_output :: "string option"
  new_answer :: "string option"

record library =
  json_loads :: "string \<Rightarrow> module option"
  parse_module_output :: "string \<Rightarrow> module_output option"
  parse_lesson_outline :: "string \<Rightarrow> module_lesson_content option"
  markdown_resub :: "string \<Rightarrow> string"
  extract_improved :: "string \<Rightarrow> improved_fields"

section \<open>Description stage: \<open>CourseDescriptionGenerator\<close>\<close>

record add_new_course =
  anc_course_name :: string
  anc_level :: string
  anc_image_uri :: string
  anc_description :: string
  anc_created_at :: string

text \<open>\<open>response.content.strip().strip('"')\<close>\<close>

definition strip_reply :: "string \<Rightarrow> string" where
  "strip_reply content = strip_char (CHR 0x22) (strip content)"

definition improve_description ::
    "string \<Rightarrow> (string \<times> string) list \<Rightarrow> world \<Rightarrow> string \<times> world" where
  "improve_description description feedback w =
     (if list_all (\<lambda>(key, val). val = ''Good'') feedback then (description, w)
      else
        (case invoke w of
           (Inr content, w') \<Rightarrow> (strip_reply content, w')
         | (Inl e, w') \<Rightarrow> (description, w')))"

definition description_doc :: "add_new_course \<Rightarrow> string \<Rightarrow> string \<Rightarrow> course_doc" where
  "description_doc data unique_id final_description =
     \<lparr> cd_course_id = unique_id,
       cd_course_name = anc_course_name data,
       cd_level = anc_level data,
       cd_image_uri = anc_image_uri data,
       cd_created_at = anc_created_at data,
       cd_is_popular = False,
       cd_is_trending = False,
       cd_description = final_description \<rparr>"

definition generate_description ::
    "add_new_course \<Rightarrow> string \<Rightarrow> world \<Rightarrow> (exc + course_doc) \<times> world" where
  "generate_description data unique_id w =
     (if anc_description data \<noteq> []
      then (Inr (description_doc data unique_id
                   (join '' '' (split_on newline
                      (filter (\<lambda>c. c \<noteq> CHR 0x0D) (anc_description data))))), w)
      else
        (case invoke w of
           (Inl e, w1) \<Rightarrow> (Inl (CustomException e), w1)
         | (Inr content, w1) \<Rightarrow>
             let initial_description = strip_reply content;
                 quality_report = check_description_quality initial_description;
                 (final_description, w2) =
                   (if \<not> dq_passes_threshold quality_report
                    then improve_description initial_description (dq_feedback quality_report) w1
                    else (initial_description, w1))
             in (Inr (description_doc data unique_id final_description), w2)))"

section \<open>Module stage: \<open>ModuleGenerator\<close> and \<open>ModuleGraphgenerator\<close>\<close>

text \<open>
  The course name, the course context and the position of a module enter the
  prompts only, so the functions below do not take them. Constructing the generator
  objects is taken to succeed.
\<close>

definition generate_curriculum_structure ::
    "library \<Rightarrow> world \<Rightarrow> (exc + module_output) \<times> world" where
  "generate_curriculum_structure lib w =
     (case invoke w of
        (Inl e, w') \<Rightarrow> (Inl e, w')
      | (Inr reply, w') \<Rightarrow>
          (case parse_module_output lib reply of
             None \<Rightarrow> (Inl (ExternalError ''structured output''), w')
           | Some out \<Rightarrow> (Inr out, w')))"

definition fallback_module :: "module_item \<Rightarrow> module" where
  "fallback_module item =
     \<lparr> m_title = Some (mi_title item),
       m_description = Some (mi_description item),
       m_learning_objectives = Some [''Unable to generate learning objectives''],
       m_prerequisites = Some ([], []),
       m_key_topics = Some [''Unable to generate key topics''],
       m_practical_applications = Some [''Unable to generate practical applications''],
       m_estimated_completion_time = Some ''Unknown'',
       m_module_id = None \<rparr>"

text \<open>\<open>{"title": ..., "description": ..., **enhanced_content}\<close>\<close>

definition merge_enhanced :: "module_item \<Rightarrow> module \<Rightarrow> module" where
  "merge_enhanced item enhanced_content =
     enhanced_content
       \<lparr> m_title := Some (get_or (m_title enhanced_content) (mi_title item)),
         m_description := Some (get_or (m_description enhanced_content) (mi_description item)) \<rparr>"

definition enhance_module :: "library \<Rightarrow> module_item \<Rightarrow> world \<Rightarrow> module \<times> world" where
  "enhance_module lib item w =
     (case invoke w of
        (Inr content, w') \<Rightarrow>
          (case json_loads lib content of
             Some enhanced_content \<Rightarrow> (merge_enhanced item enhanced_content, w')
           | None \<Rightarrow> (fallback_module item, w'))
      | (Inl e, w') \<Rightarrow> (fallback_module item, w'))"

definition improve_module ::
    "library \<Rightarrow> module \<Rightarrow> module_report \<Rightarrow> world \<Rightarrow> module \<times> world" where
  "improve_module lib m quality_report w =
     (if mr_passes_threshold quality_report then (m, w)
      else if mr_improvement_suggestions quality_report = [] then (m, w)
      else
        (case invoke w of
           (Inr content, w') \<Rightarrow>
             (case json_loads lib content of
                Some improved_module \<Rightarrow> (improved_module, w')
              | None \<Rightarrow> (m, w'))
         | (Inl e, w') \<Rightarrow> (m, w')))"

text \<open>The body of the loop of \<open>module_generater\<close>, and the loop.\<close>

definition enhance_and_check :: "library \<Rightarrow> module_item \<Rightarrow> world \<Rightarrow> module \<times> world" where
  "enhance_and_check lib item w =
     (let (enhanced_module, w1) = enhance_module lib item w;
          quality_report = check_module_quality enhanced_module
      in if \<not> mr_passes_threshold quality_report
         then improve_module lib enhanced_module quality_report w1
         else (enhanced_module, w1))"

fun enhance_all :: "library \<Rightarrow> module_item list \<Rightarrow> world \<Rightarrow> module list \<times> world" where
  "enhance_all lib [] w = ([], w)"
| "enhance_all lib (item # items) w =
     (let (enhanced_module, w1) = enhance_and_check lib item w;
          (rest, w2) = enhance_all lib items w1
      in (enhanced_module # rest, w2))"

definition module_generater :: "library \<Rightarrow> world \<Rightarrow> (exc + curriculum) \<times> world" where
  "module_generater lib w =
     (case generate_curriculum_structure lib w of
        (Inl e, w1) \<Rightarrow> (Inl (CustomException e), w1)
      | (Inr out, w1) \<Rightarrow>
          let (enhanced_modules, w2) = enhance_all lib (mo_modules out) w1;
              result = \<lparr> cu_course = mo_course out, cu_duration = mo_duration out,
                         cu_num_modules = mo_num_modules out, cu_tools = mo_tools out,
                         cu_modules = enhanced_modules \<rparr>
          in (case enhanced_modules of
                [] \<Rightarrow> (Inr result, w2)
              | sample_module # others \<Rightarrow>
                  (case m_title sample_module of
                     None \<Rightarrow> (Inl (CustomException (KeyError ''title'')), w2)
                   | Some t \<Rightarrow> (Inr result, w2))))"

fun assign_module_ids :: "module list \<Rightarrow> world \<Rightarrow> module list \<times> world" where
  "assign_module_ids [] w = ([], w)"
| "assign_module_ids (m # ms) w =
     (let (new_id, w1) = unique_id_generator ''MODULE'' w;
          (rest, w2) = assign_module_ids ms w1
      in (m \<lparr> m_module_id := Some new_id \<rparr> # rest, w2))"

text \<open>
  \<open>ModuleGraphgenerator.generate_module\<close> returns a dictionary, or, when anything
  in it fails, a \<open>CustomException\<close> object as its value.
\<close>

datatype modules_result = ModulesDict modules_doc | ExceptionObject exc

definition generate_module :: "library \<Rightarrow> course_doc \<Rightarrow> world \<Rightarrow> modules_result \<times> world" where
  "generate_module lib data w =
     (case module_generater lib w of
        (Inl e, w1) \<Rightarrow> (ExceptionObject (CustomException e), w1)
      | (Inr response, w1) \<Rightarrow>
          let (modules_with_ids, w2) = assign_module_ids (cu_modules response) w1
          in (ModulesDict \<lparr> md_course_id = cd_course_id data, md_level = cd_level data,
                            md_curriculum = response \<lparr> cu_modules := modules_with_ids \<rparr> \<rparr>, w2))"

section \<open>Lesson stage: \<open>LessonsGenerator\<close>\<close>

fun assign_lesson_ids :: "lesson_item list \<Rightarrow> world \<Rightarrow> lesson_item list \<times> world" where
  "assign_lesson_ids [] w = ([], w)"
| "assign_lesson_ids (l # ls) w =
     (let (new_id, w1) = unique_id_generator ''LESSON'' w;
          (rest, w2) = assign_lesson_ids ls w1
      in (l \<lparr> lesson_id := new_id \<rparr> # rest, w2))"

text \<open>
  \<open>generate_lesson_outlines\<close> reads \<open>module['title']\<close>, \<open>module['description']\<close> and
  \<open>module['module_id']\<close> for its prompt; a missing key raises \<open>KeyError\<close>.
\<close>

definition generate_lesson_outlines ::
    "library \<Rightarrow> module \<Rightarrow> world \<Rightarrow> (exc + module_lesson_content) \<times> world" where
  "generate_lesson_outlines lib m w =
     (if m_title m = None then (Inl (KeyError ''title''), w)
      else if m_description m = None then (Inl (KeyError ''description''), w)
      else if m_module_id m = None then (Inl (KeyError ''module_id''), w)
      else
        (case invoke w of
           (Inl e, w1) \<Rightarrow> (Inl e, w1)
         | (Inr reply, w1) \<Rightarrow>
             (case parse_lesson_outline lib reply of
                None \<Rightarrow> (Inl (ExternalError ''structured output''), w1)
              | Some result \<Rightarrow>
                  let (lessons_with_ids, w2) = assign_lesson_ids (mlc_lessons result) w1
                  in (Inr (result \<lparr> mlc_lessons := lessons_with_ids \<rparr>), w2))))"

definition ensure_markdown_consistency :: "library \<Rightarrow> string \<Rightarrow> string" where
  "ensure_markdown_consistency lib content =
     (if content = [] then content else markdown_resub lib content)"

text \<open>\<open>content_sections.get(key, "")\<close>\<close>

definition section_or_empty :: "(string \<times> string) list \<Rightarrow> string \<Rightarrow> string" where
  "section_or_empty secs key = get_or (map_of secs key) []"

text \<open>
  \<open>expand_lesson_content\<close>: the module context enters the prompt only. The reply is
  cut into sections; a failure of the call leaves the lesson as it is.
\<close>

definition expand_lesson_content :: "library \<Rightarrow> lesson_item \<Rightarrow> world \<Rightarrow> lesson_item \<times> world" where
  "expand_lesson_content lib lesson w =
     (case invoke w of
        (Inl e, w') \<Rightarrow> (lesson, w')
      | (Inr expanded_content, w') \<Rightarrow>
          let content_sections = parse_markdown_sections expanded_content;
              lesson1 = lesson \<lparr> lesson_content :=
                          ensure_markdown_consistency lib
                            (extract_main_content content_sections) \<rparr>
          in if lesson_type lesson1 = ReadAndExecute
             then (lesson1
                     \<lparr> lesson_instruction := Some (ensure_markdown_consistency lib
                          (section_or_empty content_sections ''instruction'')),
                       lesson_expected_output := Some (ensure_markdown_consistency lib
                          (section_or_empty content_sections ''expected_output'')),
                       lesson_answer := Some (ensure_markdown_consistency lib
                          (section_or_empty content_sections ''answer'')) \<rparr>, w')
             else (lesson1, w'))"

fun expand_all :: "library \<Rightarrow> lesson_item list \<Rightarrow> world \<Rightarrow> lesson_item list \<times> world" where
  "expand_all lib [] w = ([], w)"
| "expand_all lib (l # ls) w =
     (let (expanded_lesson, w1) = expand_lesson_content lib l w;
          (rest, w2) = expand_all lib ls w1
      in (expanded_lesson # rest, w2))"

text \<open>
  \<open>LessonQualityChecker.check_module_quality\<close> evaluates each lesson against a module
  context whose title and description are empty: the checker has no database client,
  so its attempt to read the module fails and is logged.
\<close>

definition lesson_evaluations :: "module_lesson_content \<Rightarrow> lesson_evaluation list" where
  "lesson_evaluations module_content =
     map (\<lambda>lesson. evaluate_lesson lesson
            (Some \<lparr> ctx_module_id = mlc_module_id module_content, ctx_title = [],
                    ctx_description = [] \<rparr>))
       (mlc_lessons module_content)"

text \<open>
  \<open>improve_lesson\<close> updates the lesson in place from the reply; instruction,
  expected output and answer only for a \<open>read_and_execute\<close> lesson.
\<close>

definition apply_improved :: "improved_fields \<Rightarrow> lesson_item \<Rightarrow> lesson_item" where
  "apply_improved f lesson =
     (let lesson1 = lesson \<lparr> lesson_title := get_or (new_title f) (lesson_title lesson),
                             lesson_content := get_or (new_content f) (lesson_content lesson) \<rparr>
      in if lesson_type lesson = ReadAndExecute
         then lesson1
                \<lparr> lesson_instruction :=
                    (case new_instruction f of Some v \<Rightarrow> Some v
                     | None \<Rightarrow> lesson_instruction lesson),
                  lesson_expected_output :=
                    (case new_expected_output f of Some v \<Rightarrow> Some v
                     | None \<Rightarrow> lesson_expected_output lesson),
                  lesson_answer :=
                    (case new_answer f of Some v \<Rightarrow> Some v | None \<Rightarrow> lesson_answer lesson) \<rparr>
         else lesson1)"

definition improve_lesson ::
    "library \<Rightarrow> lesson_item \<Rightarrow> lesson_evaluation \<Rightarrow> world \<Rightarrow> lesson_item \<times> world" where
  "improve_lesson lib lesson evaluation w =
     (if le_passes_threshold evaluation then (lesson, w)
      else if le_improvement_suggestions evaluation = [] then (lesson, w)
      else
        (case invoke w of
           (Inr improved_content, w') \<Rightarrow>
             (apply_improved (extract_improved lib improved_content) lesson, w')
         | (Inl e, w') \<Rightarrow> (lesson, w')))"

text \<open>
  \<open>_check_and_improve_module_quality\<close>. The lessons are objects that
  \<open>improve_lesson\<close> mutates: \<open>store\<close> holds their current states by position, and
  \<open>improved_lessons\<close> collects positions. An evaluation is matched to the first
  lesson with its \<open>lesson_id\<close>; the source would collect \<open>None\<close> for an
  evaluation that matches no lesson, which cannot happen because the evaluations are
  those of the lessons of the module.
\<close>

definition first_with_id :: "lesson_item list \<Rightarrow> string \<Rightarrow> nat option" where
  "first_with_id store wanted =
     (let n = length (takeWhile (\<lambda>l. lesson_id l \<noteq> wanted) store)
      in if n < length store then Some n else None)"

fun improve_loop ::
    "library \<Rightarrow> lesson_evaluation list \<Rightarrow> lesson_item list \<Rightarrow> nat option list \<Rightarrow> world
       \<Rightarrow> (lesson_item list \<times> nat option list) \<times> world" where
  "improve_loop lib [] store improved_lessons w = ((store, improved_lessons), w)"
| "improve_loop lib (lesson_eval # evals) store improved_lessons w =
     (case first_with_id store (le_lesson_id lesson_eval) of
        None \<Rightarrow> improve_loop lib evals store (improved_lessons @ [None]) w
      | Some i \<Rightarrow>
          if \<not> le_passes_threshold lesson_eval
          then (let (improved_lesson, w1) = improve_lesson lib (store ! i) lesson_eval w
                in improve_loop lib evals (store [i := improved_lesson])
                     (improved_lessons @ [Some i]) w1)
          else improve_loop lib evals store (improved_lessons @ [Some i]) w)"

definition check_and_improve_module_quality ::
    "library \<Rightarrow> module_lesson_content \<Rightarrow> world \<Rightarrow> module_lesson_content \<times> world" where
  "check_and_improve_module_quality lib module_content w =
     (let ((store, improved_lessons), w1) =
            improve_loop lib (lesson_evaluations module_content) (mlc_lessons module_content) [] w
      in (module_content
            \<lparr> mlc_lessons := List.map_filter (map_option (\<lambda>i. store ! i)) improved_lessons \<rparr>,
          w1))"

fun lessons_for_modules ::
    "library \<Rightarrow> module list \<Rightarrow> world \<Rightarrow> (exc + module_lesson_content list) \<times> world" where
  "lessons_for_modules lib [] w = (Inr [], w)"
| "lessons_for_modules lib (m # ms) w =
     (case generate_lesson_outlines lib m w of
        (Inl e, w1) \<Rightarrow> (Inl e, w1)
      | (Inr module_outline, w1) \<Rightarrow>
          let (expanded_lessons, w2) = expand_all lib (mlc_lessons module_outline) w1;
              (checked, w3) =
                check_and_improve_module_quality lib
                  (module_outline \<lparr> mlc_lessons := expanded_lessons \<rparr>) w2
          in (case lessons_for_modules lib ms w3 of
                (Inl e, w4) \<Rightarrow> (Inl e, w4)
              | (Inr rest, w4) \<Rightarrow> (Inr (checked # rest), w4)))"

text \<open>
  \<open>generate_lessons_for_each_module\<close>. Its final course-level quality check only
  feeds the log.
\<close>

definition generate_lessons_for_each_module ::
    "library \<Rightarrow> module list \<Rightarrow> string \<Rightarrow> world \<Rightarrow> (exc + modules_lesson_output) \<times> world" where
  "generate_lessons_for_each_module lib modules course_id w =
     (case lessons_for_modules lib modules w of
        (Inl e, w1) \<Rightarrow> (Inl e, w1)
      | (Inr final_results, w1) \<Rightarrow>
          (Inr \<lparr> mlo_course_id = course_id, mlo_modules = final_results \<rparr>, w1))"

section \<open>Course generation: \<open>Courses.generate_course\<close>\<close>

text \<open>\<open>courses_collection.find_one({"course_name": name})\<close>\<close>

definition doc_course_name :: "document \<Rightarrow> string option" where
  "doc_course_name d =
     (case d of
        CourseDoc c \<Rightarrow> Some (cd_course_name c)
      | RawDoc pairs \<Rightarrow> map_of pairs ''course_name''
      | _ \<Rightarrow> None)"

definition find_one_by_course_name :: "string \<Rightarrow> world \<Rightarrow> document option" where
  "find_one_by_course_name name w =
     find (\<lambda>d. doc_course_name d = Some name) (courses_collection w)"

datatype course_result = Message string | Acknowledged ack

definition log_event :: "event \<Rightarrow> world \<Rightarrow> world" where
  "log_event e w = w \<lparr> events := events w @ [e] \<rparr>"

text \<open>
  The steps of \<open>generate_course\<close> after the description has been written. Reading
  \<open>generated_modules['modules']\<close> raises \<open>TypeError\<close> when \<open>generate_module\<close> has
  returned an exception object.
\<close>

definition lessons_step ::
    "library \<Rightarrow> modules_doc \<Rightarrow> string \<Rightarrow> world \<Rightarrow> (exc + course_result) \<times> world" where
  "lessons_step lib generated_modules unique_id w =
     (case generate_lessons_for_each_module lib
             (cu_modules (md_curriculum generated_modules)) unique_id
             (log_event (Begins LessonStage) w) of
        (Inl e, w1) \<Rightarrow> (Inl e, w1)
      | (Inr lessons, w1) \<Rightarrow>
          (case insert_one_document Lessons (LessonsDoc lessons) w1 of
             (Inl e, w2) \<Rightarrow> (Inl e, w2)
           | (Inr result, w2) \<Rightarrow> (Inr (Acknowledged result), w2)))"

definition modules_step ::
    "library \<Rightarrow> course_doc \<Rightarrow> string \<Rightarrow> world \<Rightarrow> (exc + course_result) \<times> world" where
  "modules_step lib description unique_id w =
     (case generate_module lib description (log_event (Begins ModuleStage) w) of
        (ExceptionObject obj, w1) \<Rightarrow>
          (Inl (TypeError ''CustomException object is not subscriptable''), w1)
      | (ModulesDict generated_modules, w1) \<Rightarrow>
          (case insert_one_document Modules (ModulesDoc generated_modules) w1 of
             (Inl e, w2) \<Rightarrow> (Inl e, w2)
           | (Inr result, w2) \<Rightarrow> lessons_step lib generated_modules unique_id w2))"

definition description_step ::
    "library \<Rightarrow> add_new_course \<Rightarrow> world \<Rightarrow> (exc + course_result) \<times> world" where
  "description_step lib data w =
     (let (unique_id, w0) = unique_id_generator ''COURSE'' w
      in case generate_description data unique_id (log_event (Begins DescriptionStage) w0) of
           (Inl e, w1) \<Rightarrow> (Inl e, w1)
         | (Inr description, w1) \<Rightarrow>
             (case insert_one_document Courses (CourseDoc description) w1 of
                (Inl e, w2) \<Rightarrow> (Inl e, w2)
              | (Inr result, w2) \<Rightarrow> modules_step lib description unique_id w2))"

text \<open>\<open>try: ... except Exception as e: raise CustomException(e, sys)\<close>\<close>

definition wrap_custom :: "(exc + 'a) \<times> world \<Rightarrow> (exc + 'a) \<times> world" where
  "wrap_custom r = (case r of (Inl e, w) \<Rightarrow> (Inl (CustomException e), w) | (Inr v, w) \<Rightarrow> (Inr v, w))"

text \<open>The body of the \<open>try\<close> block of \<open>generate_course\<close>, and \<open>generate_course\<close>.\<close>

definition generate_course_body ::
    "library \<Rightarrow> add_new_course \<Rightarrow> world \<Rightarrow> (exc + course_result) \<times> world" where
  "generate_course_body lib data w =
     (case find_one_by_course_name (anc_course_name data) w of
        Some existing_course \<Rightarrow>
          (Inr (Message (''Course '' @ [CHR 0x27] @ anc_course_name data @ [CHR 0x27]
                          @ '' already exists.'')), w)
      | None \<Rightarrow> description_step lib data w)"

definition generate_course ::
    "library \<Rightarrow> add_new_course \<Rightarrow> world \<Rightarrow> (exc + course_result) \<times> world" where
  "generate_course lib data w = wrap_custom (generate_course_body lib data w)"

section \<open>Traces of a course-generation run\<close>

text \<open>
  The events of a run other than calls of the provider, the order in which a
  complete run produces them, and the events that one call of \<open>generate_course\<close>
  adds to the trace.
\<close>

definition stage_events :: "event list \<Rightarrow> event list" where
  "stage_events tr = filter (\<lambda>e. e \<noteq> LlmCall) tr"

definition pipeline_order :: "event list" where
  "pipeline_order =
     [Begins DescriptionStage, DbInsert Courses,
      Begins ModuleStage, DbInsert Modules,
      Begins LessonStage, DbInsert Lessons]"

definition run_trace :: "library \<Rightarrow> add_new_course \<Rightarrow> world \<Rightarrow> event list" where
  "run_trace lib data w = drop (length (events w)) (events (snd (generate_course lib data w)))"

text \<open>\<open>precedes a b tr\<close>: in \<open>tr\<close>, no \<open>b\<close> occurs before the first \<open>a\<close>.\<close>

fun precedes :: "event \<Rightarrow> event \<Rightarrow> event list \<Rightarrow> bool" where
  "precedes a b [] = True"
| "precedes a b (e # es) = (if e = a then True else e \<noteq> b \<and> precedes a b es)"

text \<open>
  \<open>calls_only w w'\<close>: from \<open>w\<close> to \<open>w'\<close> the trace has grown by calls of the provider
  only, and the database is as it was.
\<close>

definition calls_only :: "world \<Rightarrow> world \<Rightarrow> bool" where
  "calls_only w w' =
     ((\<exists>k. events w' = events w @ replicate k LlmCall)
      \<and> courses_collection w' = courses_collection w
      \<and> modules_collection w' = modules_collection w
      \<and> lessons_collection w' = lessons_collection w
      \<and> domain_collection w' = domain_collection w
      \<and> insert_faults w' = insert_faults w)"

section \<open>Authentication: \<open>AuthComponent\<close> and \<open>utils.auth\<close>\<close>

text \<open>
  The user store is the \<open>users\<close> table behind a remote service: a list of rows, the
  identifiers the table is going to assign to new rows, and how the service is
  going to answer the coming requests. A select request answers with the matching
  rows or raises; an insert request stores the row and answers with it, stores
  nothing and answers with no data, or raises. When nothing is scripted the
  service answers. Password hashing, password verification and token encoding are
  external, may raise, and are taken as parameters, as is the clock.
\<close>

record user_row =
  u_id :: string
  u_email :: string
  u_password :: string
  u_role :: string
  u_created_at :: string
  u_full_name :: "string option"
  u_organization_name :: "string option"

datatype insert_reply = RowReturned | NoRowReturned | InsertFails string

record user_store =
  users :: "user_row list"
  fresh_ids :: "string list"
  select_faults :: "string option list"
  insert_replies :: "insert_reply list"

record user_response =
  ur_id :: string
  ur_email :: string
  ur_role :: string
  ur_full_name :: "string option"
  ur_organization_name :: "string option"

record token_response =
  access_token :: string
  token_type :: string
  token_user :: user_response

record crypto =
  pwd_hash :: "string \<Rightarrow> exc + string"
  pwd_verify :: "string \<Rightarrow> string \<Rightarrow> exc + bool"
  jwt_encode :: "string \<Rightarrow> exc + string"
  utcnow :: string

text \<open>The rows of the table with the given email.\<close>

definition select_by_email :: "string \<Rightarrow> user_store \<Rightarrow> user_row list" where
  "select_by_email email s = filter (\<lambda>u. u_email u = email) (users s)"

text \<open>\<open>table("users").select("*").eq("email", email).execute().data\<close>\<close>

definition select_request ::
    "string \<Rightarrow> user_store \<Rightarrow> (exc + user_row list) \<times> user_store" where
  "select_request email s =
     (case select_faults s of
        [] \<Rightarrow> (Inr (select_by_email email s), s)
      | None # faults \<Rightarrow> (Inr (select_by_email email s), s \<lparr> select_faults := faults \<rparr>)
      | Some msg # faults \<Rightarrow> (Inl (ExternalError msg), s \<lparr> select_faults := faults \<rparr>))"

text \<open>The row as the table stores it: with the next identifier of the table.\<close>

definition stored_row :: "user_row \<Rightarrow> user_store \<Rightarrow> user_row" where
  "stored_row user_data s =
     (case fresh_ids s of [] \<Rightarrow> user_data | i # ids \<Rightarrow> user_data \<lparr> u_id := i \<rparr>)"


text \<open>
  \<open>AuthComponent.get_user_by_email\<close>: any exception of the select is raised as
  \<open>CustomException\<close>.
\<close>

definition get_user_by_email ::
    "string \<Rightarrow> user_store \<Rightarrow> (exc + user_row option) \<times> user_store" where
  "get_user_by_email email s =
     (case select_request email s of
        (Inl e, s') \<Rightarrow> (Inl (CustomException e), s')
      | (Inr [], s') \<Rightarrow> (Inr None, s')
      | (Inr (u # rest), s') \<Rightarrow> (Inr (Some u), s'))"

text \<open>
  \<open>AuthComponent.verify_password\<close>, \<open>get_password_hash\<close> and \<open>create_access_token\<close>
  raise \<open>CustomException\<close> when the library call raises.
\<close>

definition verify_password :: "crypto \<Rightarrow> string \<Rightarrow> string \<Rightarrow> exc + bool" where
  "verify_password cr plain_password hashed_password =
     (case pwd_verify cr plain_password hashed_password of
        Inl e \<Rightarrow> Inl (CustomException e)
      | Inr matches \<Rightarrow> Inr matches)"


definition create_access_token :: "crypto \<Rightarrow> string \<Rightarrow> exc + string" where
  "create_access_token cr subject =
     (case jwt_encode cr subject of
        Inl e \<Rightarrow> Inl (CustomException e)
      | Inr encoded_jwt \<Rightarrow> Inr encoded_jwt)"

definition response_of :: "user_row \<Rightarrow> user_response" where
  "response_of u =
     \<lparr> ur_id = u_id u, ur_email = u_email u, ur_role = u_role u,
       ur_full_name = u_full_name u, ur_organization_name = u_organization_name u \<rparr>"





text \<open>
  \<open>AuthComponent.authenticate_user\<close> and \<open>AuthComponent.login\<close>. They only read
  the store.
\<close>

definition authenticate_user ::
    "crypto \<Rightarrow> string \<Rightarrow> string \<Rightarrow> user_store \<Rightarrow> exc + user_row" where
  "authenticate_user cr email password s =
     (case (case fst (get_user_by_email email s) of
              Inl e \<Rightarrow> Inl e
            | Inr None \<Rightarrow> Inl (HTTPException 401 ''Incorrect email or password'')
            | Inr (Some user) \<Rightarrow>
                (case verify_password cr password (u_password user) of
                   Inl e \<Rightarrow> Inl e
                 | Inr matches \<Rightarrow>
                     if \<not> matches
                     then Inl (HTTPException 401 ''Incorrect email or password'')
                     else Inr user)) of
        Inl (HTTPException code detail) \<Rightarrow> Inl (HTTPException code detail)
      | Inl e \<Rightarrow> Inl (CustomException e)
      | Inr user \<Rightarrow> Inr user)"

definition login :: "crypto \<Rightarrow> string \<Rightarrow> string \<Rightarrow> user_store \<Rightarrow> exc + token_response" where
  "login cr email password s =
     (case (case authenticate_user cr email password s of
              Inl e \<Rightarrow> Inl e
            | Inr user \<Rightarrow>
                (case create_access_token cr (u_id user) of
                   Inl e \<Rightarrow> Inl e
                 | Inr encoded_jwt \<Rightarrow>
                     Inr \<lparr> access_token = encoded_jwt,
                           token_type = ''bearer'',
                           token_user = response_of user \<rparr>)) of
        Inl e \<Rightarrow> Inl (CustomException e)
      | Inr response \<Rightarrow> Inr response)"

text \<open>
  \<open>select_answers s\<close>: the service is going to answer the next select request.
  \<open>insert_returns_row s\<close>: it is going to store the next inserted row and answer
  with it.
\<close>

definition select_answers :: "user_store \<Rightarrow> bool" where
  "select_answers s = (case select_faults s of Some msg # faults \<Rightarrow> False | _ \<Rightarrow> True)"

definition insert_returns_row :: "user_store \<Rightarrow> bool" where
  "insert_returns_row s =
     (case insert_replies s of [] \<Rightarrow> True | RowReturned # rs \<Rightarrow> True | _ \<Rightarrow> False)"

section \<open>Example inputs\<close>

text \<open>
  A library whose parsers reject every reply and whose rewrites change nothing, a
  world with given replies and an empty database, a lesson outline, and a module.
\<close>

definition idle_library :: library where
  "idle_library =
     \<lparr> json_loads = (\<lambda>s. None),
       parse_module_output = (\<lambda>s. None),
       parse_lesson_outline = (\<lambda>s. None),
       markdown_resub = (\<lambda>s. s),
       extract_improved = (\<lambda>s. \<lparr> new_title = None, new_content = None, new_instruction = None,
                                    new_expected_output = None, new_answer = None \<rparr>) \<rparr>"

definition quiet_world :: "(exc + string) list \<Rightarrow> world" where
  "quiet_world replies =
     \<lparr> llm_replies = replies, uuids = [], insert_faults = [], events = [],
       courses_collection = [], modules_collection = [], lessons_collection = [],
       domain_collection = [] \<rparr>"

definition draft_lesson :: lesson_item where
  "draft_lesson =
     \<lparr> lesson_id = ''LESSON_1A2B3C4D'', lesson_title = ''Lists'', lesson_type = ReadAndExecute,
       lesson_content = ''short'', lesson_instruction = None, lesson_expected_output = None,
       lesson_answer = None, lesson_outline = None \<rparr>"

definition plain_module :: module where
  "plain_module =
     \<lparr> m_title = Some ''Python Data Structures and Algorithms'',
       m_description = Some ''Learn Python lists.'',
       m_learning_objectives =
         Some [''Define a list'', ''Explain slicing'', ''Compare tuples and lists'',
               ''Design a stack'', ''Implement a queue''],
       m_prerequisites = None,
       m_key_topics =
         Some [''lists and tuples'', ''stacks and queues'', ''sets and dictionaries'',
               ''sorting a list'', ''searching a list'', ''trees and graphs'',
               ''hashing of keys''],
       m_practical_applications =
         Some [''Inventory tracking in a business'', ''Log processing in production'',
               ''Puzzle solving at a company''],
       m_estimated_completion_time = None,
       m_module_id = None \<rparr>"

text \<open>
  A request with its own description, a library whose structured-output parsers
  yield a curriculum of one module and an outline of one lesson, and a world in
  which the provider answers six times.
\<close>

definition python_request :: add_new_course where
  "python_request =
     \<lparr> anc_course_name = ''Python Basics'', anc_level = ''beginner'',
       anc_image_uri = ''python.png'', anc_description = ''Learn Python from scratch.'',
       anc_created_at = ''2025-01-01T00:00:00'' \<rparr>"

definition demo_library :: library where
  "demo_library =
     idle_library
       \<lparr> parse_module_output :=
           (\<lambda>s. Some \<lparr> mo_course = ''Python Basics'', mo_duration = ''4 weeks'',
                        mo_num_modules = 1, mo_tools = [''Python''],
                        mo_modules = [\<lparr> mi_title = ''Lists'',
                                        mi_description = ''Work with lists.'' \<rparr>] \<rparr>),
         parse_lesson_outline :=
           (\<lambda>s. Some \<lparr> mlc_module_id = ''MODULE_00000000'', mlc_lessons = [draft_lesson] \<rparr>) \<rparr>"

definition demo_world :: world where
  "demo_world =
     quiet_world [Inr ''curriculum'', Inr ''not json'', Inr ''not json'', Inr ''outline'',
                  Inr ''Some text without headers'', Inr ''Title: Lists'']"





text \<open>A toy password scheme and token encoder, and a user store with one user.\<close>

definition toy_crypto :: crypto where
  "toy_crypto =
     \<lparr> pwd_hash = (\<lambda>password. Inr (''hashed:'' @ password)),
       pwd_verify = (\<lambda>password hashed. Inr (hashed = ''hashed:'' @ password)),
       jwt_encode = (\<lambda>subject. Inr (''token-for-'' @ subject)),
       utcnow = ''2025-01-01T00:00:00'' \<rparr>"

definition alice :: user_row where
  "alice =
     \<lparr> u_id = ''u1'', u_email = ''alice@example.com'', u_password = ''hashed:wonderland'',
       u_role = ''administrator'', u_created_at = ''2024-12-31T00:00:00'',
       u_full_name = Some ''Alice'', u_organization_name = None \<rparr>"

definition one_user_store :: user_store where
  "one_user_store =
     \<lparr> users = [alice], fresh_ids = [''u2''], select_faults = [], insert_replies = [] \<rparr>"




text \<open>
  The outline entry of the example module, and a library whose JSON parser reads the
  example module from every reply.
\<close>

definition plain_item :: module_item where
  "plain_item =
     \<lparr> mi_title = ''Python Data Structures and Algorithms'',
       mi_description = ''Learn Python lists.'' \<rparr>"

definition plain_library :: library where
  "plain_library = idle_library \<lparr> json_loads := (\<lambda>s. Some plain_module) \<rparr>"

section \<open>Properties of the description checker\<close>

lemma length_score_criterion:
  "length_score d = (if length_criterion d then 1 else 1 / 2)"
  by (simp add: length_score_def length_criterion_def description_words_def
      description_sentences_def)

lemma round2_values:
  "round2 50 = 50" "round2 (200 / 3) = 6667 / 100"
  "round2 (250 / 3) = 8333 / 100" "round2 100 = 100"
  by code_simp+

lemma overall_score_cases:
  "overall_score d =
     (if criteria_met d = 0 then 50 else if criteria_met d = 1 then 200 / 3
      else if criteria_met d = 2 then 250 / 3 else 100)"
  by (simp add: overall_score_def length_score_criterion marketing_score_def
      specificity_score_def has_marketing_appeal_def has_specificity_def criteria_met_def)

lemma criteria_met_le: "criteria_met d \<le> 3"
  by (simp add: criteria_met_def)

text \<open>
  Claim C5, amended. The returned \<open>quality_score\<close> is the mean of the three component
  scores times 100, rounded to two decimals; each component is 1 when its
  criterion holds and 1/2 otherwise; \<open>passes_threshold\<close> holds exactly when the
  unrounded score is at least 80, exactly when the returned score is at least 80, and
  exactly when at least two of the three criteria are met.
\<close>

theorem check_description_quality_score:
  "dq_quality_score (check_description_quality d)
     = round2 ((length_score d + marketing_score d + specificity_score d) / 3 * 100)
   \<and> length_score d = (if length_criterion d then 1 else 1 / 2)
   \<and> marketing_score d = (if any_in marketing_terms (lower d) then 1 else 1 / 2)
   \<and> specificity_score d = (if any_in tech_terms (lower d) then 1 else 1 / 2)
   \<and> dq_passes_threshold (check_description_quality d)
       = (80 \<le> (length_score d + marketing_score d + specificity_score d) / 3 * 100)
   \<and> dq_passes_threshold (check_description_quality d)
       = (80 \<le> dq_quality_score (check_description_quality d))
   \<and> dq_passes_threshold (check_description_quality d) = (2 \<le> criteria_met d)"
proof -
  have score: "dq_quality_score (check_description_quality d) = round2 (overall_score d)"
    and pass: "dq_passes_threshold (check_description_quality d) = (80 \<le> overall_score d)"
    by (simp_all add: check_description_quality_def)
  have unfolded: "overall_score d
      = (length_score d + marketing_score d + specificity_score d) / 3 * 100"
    by (simp add: overall_score_def)
  have two: "(80 \<le> overall_score d) = (2 \<le> criteria_met d)"
    using criteria_met_le [of d] by (simp add: overall_score_cases)
  have rounded: "(80 \<le> round2 (overall_score d)) = (2 \<le> criteria_met d)"
    using criteria_met_le [of d] by (simp add: overall_score_cases round2_values)
  have c1: "dq_quality_score (check_description_quality d)
      = round2 ((length_score d + marketing_score d + specificity_score d) / 3 * 100)"
    using score by (simp add: unfolded)
  have c3: "marketing_score d = (if any_in marketing_terms (lower d) then 1 else 1 / 2)"
    by (simp add: marketing_score_def has_marketing_appeal_def)
  have c4: "specificity_score d = (if any_in tech_terms (lower d) then 1 else 1 / 2)"
    by (simp add: specificity_score_def has_specificity_def)
  have c5: "dq_passes_threshold (check_description_quality d)
      = (80 \<le> (length_score d + marketing_score d + specificity_score d) / 3 * 100)"
    using pass by (simp add: unfolded)
  have c6: "dq_passes_threshold (check_description_quality d)
      = (80 \<le> dq_quality_score (check_description_quality d))"
    by (simp only: score pass two rounded)
  have c7: "dq_passes_threshold (check_description_quality d) = (2 \<le> criteria_met d)"
    by (simp only: pass two)
  from c1 length_score_criterion [of d] c3 c4 c5 c6 c7 show ?thesis
    by (intro conjI)
qed

theorem check_description_quality_score_witness:
  "dq_quality_score (check_description_quality ''Learn Python'') = 8333 / 100
   \<and> dq_passes_threshold (check_description_quality ''Learn Python'')
   \<and> criteria_met ''Learn Python'' = 2"
proof -
  have m: "criteria_met ''Learn Python'' = 2"
    by code_simp
  have r: "round2 ((length_score ''Learn Python'' + marketing_score ''Learn Python''
          + specificity_score ''Learn Python'') / 3 * 100) = 8333 / 100"
    by code_simp
  note all = check_description_quality_score [of "''Learn Python''"]
  have q: "dq_quality_score (check_description_quality ''Learn Python'')
      = round2 ((length_score ''Learn Python'' + marketing_score ''Learn Python''
          + specificity_score ''Learn Python'') / 3 * 100)"
    using all by (elim conjE)
  have p: "dq_passes_threshold (check_description_quality ''Learn Python'')
      = (2 \<le> criteria_met ''Learn Python'')"
    using all by (elim conjE)
  show ?thesis
    unfolding q r p m by simp
qed

text \<open>
  Claim C5 as stated fails: for the description \<open>learn\<close> one criterion holds, the mean
  times 100 is 200/3, and the returned score is 66.67.
\<close>

theorem check_description_quality_unrounded_counterexample:
  "dq_quality_score (check_description_quality ''learn'')
     \<noteq> (length_score ''learn'' + marketing_score ''learn'' + specificity_score ''learn'')
         / 3 * 100"
  by code_simp

section \<open>Properties of the markdown section parser\<close>

lemma split_acc_append:
  "split_acc sep cur (a @ sep # b) = split_acc sep cur a @ split_acc sep [] b"
  by (induction a arbitrary: cur) simp_all

lemma split_on_append:
  "split_on sep (a @ sep # b) = split_on sep a @ split_on sep b"
  by (simp add: split_on_def split_acc_append)

lemma parse_line_before_first_header:
  assumes "\<not> startswith line ''## ''"
  shows "parse_line parser_start line = parser_start"
  using assms by (simp add: parse_line_def section_open_def parser_start_def)

lemma foldl_parse_line_preamble:
  assumes "list_all (\<lambda>line. \<not> startswith line ''## '') lines"
  shows "foldl parse_line parser_start lines = parser_start"
  using assms by (induction lines) (simp_all add: parse_line_before_first_header)

lemma parse_lines_preamble:
  assumes "list_all (\<lambda>line. \<not> startswith line ''## '') pre"
  shows "parse_lines (pre @ rest) = parse_lines rest"
  using assms by (simp add: parse_lines_def foldl_parse_line_preamble)

lemma parse_markdown_sections_no_header:
  assumes "no_section_header text"
  shows "parse_markdown_sections text = []"
proof -
  have "foldl parse_line parser_start (split_on newline text) = parser_start"
    using assms by (simp add: no_section_header_def foldl_parse_line_preamble)
  then show ?thesis
    by (simp add: parse_markdown_sections_def parse_lines_def save_section_def parser_start_def)
qed

lemma extract_main_content_empty: "extract_main_content [] = []"
  by (simp add: extract_main_content_def)

lemma expand_lesson_content_no_header:
  assumes "llm_replies w = Inr text # rs" and "no_section_header text"
  shows "lesson_content (fst (expand_lesson_content lib lesson w)) = []"
proof -
  have "invoke w = (Inr text, w \<lparr> llm_replies := rs, events := events w @ [LlmCall] \<rparr>)"
    using assms(1) by (simp add: invoke_def)
  then show ?thesis
    using assms(2)
    by (simp add: expand_lesson_content_def parse_markdown_sections_no_header
        extract_main_content_empty ensure_markdown_consistency_def Let_def)
qed

text \<open>
  Claim C10. \<open>_parse_markdown_sections\<close> discards every line before the first line
  that starts with \<open>## \<close>: a text whose first lines \<open>pre\<close> hold no such line parses
  as the rest of it does. A text with no such line at all parses to the empty
  dictionary, and \<open>expand_lesson_content\<close> then sets the content of the lesson to the
  empty string.
\<close>

theorem parse_markdown_sections_discards_preamble:
  "(no_section_header pre \<longrightarrow>
      parse_markdown_sections (pre @ newline # rest) = parse_markdown_sections rest)
   \<and> (no_section_header text \<longrightarrow> parse_markdown_sections text = [])
   \<and> (no_section_header text \<and> llm_replies w = Inr text # rs \<longrightarrow>
        lesson_content (fst (expand_lesson_content lib lesson w)) = [])"
proof (intro conjI impI)
  assume "no_section_header pre"
  then show "parse_markdown_sections (pre @ newline # rest) = parse_markdown_sections rest"
    by (simp add: parse_markdown_sections_def split_on_append no_section_header_def
        parse_lines_preamble)
next
  assume "no_section_header text"
  then show "parse_markdown_sections text = []"
    by (rule parse_markdown_sections_no_header)
next
  assume "no_section_header text \<and> llm_replies w = Inr text # rs"
  then show "lesson_content (fst (expand_lesson_content lib lesson w)) = []"
    by (simp add: expand_lesson_content_no_header)
qed

theorem parse_markdown_sections_discards_preamble_witness:
  "no_section_header ''Here is the lesson.''
   \<and> parse_markdown_sections
        (''Here is the lesson.'' @ newline # (''## Lists'' @ newline # ''A list is ordered.''))
       = [(''Lists'', ''A list is ordered.'')]
   \<and> parse_markdown_sections ''Here is the lesson.'' = []
   \<and> lesson_content
        (fst (expand_lesson_content idle_library draft_lesson
                (quiet_world [Inr ''Here is the lesson.'']))) = []"
proof -
  have h: "no_section_header ''Here is the lesson.''"
    by code_simp
  have r: "parse_markdown_sections (''## Lists'' @ newline # ''A list is ordered.'')
             = [(''Lists'', ''A list is ordered.'')]"
    by code_simp
  have w: "llm_replies (quiet_world [Inr ''Here is the lesson.''])
             = Inr ''Here is the lesson.'' # []"
    by (simp add: quiet_world_def)
  note t = parse_markdown_sections_discards_preamble
    [of "''Here is the lesson.''" "''## Lists'' @ newline # ''A list is ordered.''"
        "''Here is the lesson.''" "quiet_world [Inr ''Here is the lesson.'']" "[]"
        idle_library draft_lesson]
  have a: "parse_markdown_sections
        (''Here is the lesson.'' @ newline # (''## Lists'' @ newline # ''A list is ordered.''))
       = parse_markdown_sections (''## Lists'' @ newline # ''A list is ordered.'')"
    using t h by blast
  have b: "parse_markdown_sections ''Here is the lesson.'' = []"
    using t h by blast
  have c: "lesson_content
        (fst (expand_lesson_content idle_library draft_lesson
                (quiet_world [Inr ''Here is the lesson.'']))) = []"
    using t h w by blast
  show ?thesis
    using h a r b c by simp
qed

section \<open>Properties of the lesson evaluation\<close>

lemma evaluate_lesson_score:
  "le_quality_score (evaluate_lesson lesson ctx)
     = max 0 (min 100 (lesson_deductions (le_structure_check (evaluate_lesson lesson ctx))
         (le_code_quality (evaluate_lesson lesson ctx))
         (le_exercise_quality (evaluate_lesson lesson ctx))
         (le_module_relevance (evaluate_lesson lesson ctx))))"
  by (simp add: evaluate_lesson_def Let_def)

text \<open>
  Claim C9. The \<open>quality_score\<close> that \<open>evaluate_lesson\<close> returns lies between 0 and
  100: it is the score left by the deductions, clamped with
  \<open>max(0, min(100, score))\<close>; and \<open>passes_threshold\<close> holds exactly when the score
  is at least 70.
\<close>

theorem evaluate_lesson_score_bounds:
  "0 \<le> le_quality_score (evaluate_lesson lesson ctx)
   \<and> le_quality_score (evaluate_lesson lesson ctx) \<le> 100
   \<and> le_quality_score (evaluate_lesson lesson ctx)
       = max 0 (min 100 (lesson_deductions (le_structure_check (evaluate_lesson lesson ctx))
           (le_code_quality (evaluate_lesson lesson ctx))
           (le_exercise_quality (evaluate_lesson lesson ctx))
           (le_module_relevance (evaluate_lesson lesson ctx))))
   \<and> le_passes_threshold (evaluate_lesson lesson ctx)
       = (70 \<le> le_quality_score (evaluate_lesson lesson ctx))"
proof (intro conjI)
  show "0 \<le> le_quality_score (evaluate_lesson lesson ctx)"
    by (simp add: evaluate_lesson_def Let_def)
  show "le_quality_score (evaluate_lesson lesson ctx) \<le> 100"
    by (simp add: evaluate_lesson_def Let_def)
  show "le_quality_score (evaluate_lesson lesson ctx)
       = max 0 (min 100 (lesson_deductions (le_structure_check (evaluate_lesson lesson ctx))
           (le_code_quality (evaluate_lesson lesson ctx))
           (le_exercise_quality (evaluate_lesson lesson ctx))
           (le_module_relevance (evaluate_lesson lesson ctx))))"
    by (rule evaluate_lesson_score)
  show "le_passes_threshold (evaluate_lesson lesson ctx)
       = (70 \<le> le_quality_score (evaluate_lesson lesson ctx))"
    by (simp add: evaluate_lesson_def Let_def)
qed

text \<open>
  The clamp is at work: for the example lesson, evaluated as the pipeline does it, the
  deductions leave \<open>-10\<close> and the returned score is 0.
\<close>

theorem evaluate_lesson_score_bounds_witness:
  "lesson_deductions
     (le_structure_check (evaluate_lesson draft_lesson
        (Some \<lparr> ctx_module_id = ''MODULE_1'', ctx_title = [], ctx_description = [] \<rparr>)))
     (le_code_quality (evaluate_lesson draft_lesson
        (Some \<lparr> ctx_module_id = ''MODULE_1'', ctx_title = [], ctx_description = [] \<rparr>)))
     (le_exercise_quality (evaluate_lesson draft_lesson
        (Some \<lparr> ctx_module_id = ''MODULE_1'', ctx_title = [], ctx_description = [] \<rparr>)))
     (le_module_relevance (evaluate_lesson draft_lesson
        (Some \<lparr> ctx_module_id = ''MODULE_1'', ctx_title = [], ctx_description = [] \<rparr>)))
     = - 10
   \<and> le_quality_score (evaluate_lesson draft_lesson
        (Some \<lparr> ctx_module_id = ''MODULE_1'', ctx_title = [], ctx_description = [] \<rparr>)) = 0
   \<and> \<not> le_passes_threshold (evaluate_lesson draft_lesson
        (Some \<lparr> ctx_module_id = ''MODULE_1'', ctx_title = [], ctx_description = [] \<rparr>))"
proof -
  let ?ctx = "Some \<lparr> ctx_module_id = ''MODULE_1'', ctx_title = [], ctx_description = [] \<rparr>"
  let ?ev = "evaluate_lesson draft_lesson ?ctx"
  have d: "lesson_deductions (le_structure_check ?ev) (le_code_quality ?ev)
             (le_exercise_quality ?ev) (le_module_relevance ?ev) = - 10"
    by code_simp
  note t = evaluate_lesson_score_bounds [of draft_lesson ?ctx]
  have s: "le_quality_score ?ev = 0"
    using t d by simp
  have p: "\<not> le_passes_threshold ?ev"
    using t s by simp
  show ?thesis
    using d s p by simp
qed

section \<open>A lesson that fails its evaluation carries a suggestion\<close>

lemma structure_good:
  assumes "structure_quality (check_content_structure c) \<noteq> ''needs_improvement''"
  shows "has_sections (check_content_structure c)
    \<and> 300 \<le> content_length (check_content_structure c)
    \<and> has_formatting (check_content_structure c)"
  using assms by (simp add: check_content_structure_def Let_def split: if_splits)

lemma lesson_suggestions_empty_deductions:
  assumes "lesson_suggestions sc cq eq mr = []"
    and "structure_quality sc \<noteq> ''needs_improvement'' \<Longrightarrow>
         has_sections sc \<and> 300 \<le> content_length sc \<and> has_formatting sc"
  shows "80 \<le> lesson_deductions sc cq eq mr"
  using assms
  by (auto simp: lesson_suggestions_def lesson_deductions_def deduct_def suggest_def Let_def
      split: if_splits)

lemma failing_lesson_has_suggestions:
  assumes "\<not> le_passes_threshold (evaluate_lesson lesson ctx)"
  shows "le_improvement_suggestions (evaluate_lesson lesson ctx) \<noteq> []"
proof
  assume e: "le_improvement_suggestions (evaluate_lesson lesson ctx) = []"
  let ?ev = "evaluate_lesson lesson ctx"
  have s: "lesson_suggestions (le_structure_check ?ev) (le_code_quality ?ev)
             (le_exercise_quality ?ev) (le_module_relevance ?ev) = []"
    using e by (simp add: evaluate_lesson_def Let_def)
  have sc: "le_structure_check ?ev = check_content_structure (lesson_content lesson)"
    by (simp add: evaluate_lesson_def Let_def)
  have "80 \<le> lesson_deductions (le_structure_check ?ev) (le_code_quality ?ev)
             (le_exercise_quality ?ev) (le_module_relevance ?ev)"
    using s by (rule lesson_suggestions_empty_deductions) (simp add: sc structure_good)
  then have "le_passes_threshold ?ev"
    by (simp add: evaluate_lesson_def Let_def)
  with assms show False by simp
qed

section \<open>Calls of the provider made by the quality repairs\<close>

lemma invoke_events: "events (snd (invoke w)) = events w @ [LlmCall]"
  by (simp add: invoke_def split: list.splits)

lemma invoke_calls: "llm_calls (snd (invoke w)) = llm_calls w + 1"
  by (simp add: llm_calls_def invoke_events)

lemma improve_module_passing:
  assumes "mr_passes_threshold r"
  shows "improve_module lib m r w = (m, w)"
  using assms by (simp add: improve_module_def)

lemma improve_module_no_suggestions:
  assumes "mr_improvement_suggestions r = []"
  shows "improve_module lib m r w = (m, w)"
  using assms by (simp add: improve_module_def)

lemma improve_module_world:
  assumes "\<not> mr_passes_threshold r" and "mr_improvement_suggestions r \<noteq> []"
  shows "snd (improve_module lib m r w) = snd (invoke w)"
  using assms by (simp add: improve_module_def split: prod.splits sum.splits option.splits)

lemma improve_lesson_passing:
  assumes "le_passes_threshold ev"
  shows "improve_lesson lib l ev w = (l, w)"
  using assms by (simp add: improve_lesson_def)

lemma improve_lesson_world:
  assumes "\<not> le_passes_threshold ev" and "le_improvement_suggestions ev \<noteq> []"
  shows "snd (improve_lesson lib l ev w) = snd (invoke w)"
  using assms by (simp add: improve_lesson_def split: prod.splits sum.splits)

lemma enhance_module_world: "snd (enhance_module lib item w) = snd (invoke w)"
  by (simp add: enhance_module_def split: prod.splits sum.splits option.splits)

lemma enhance_and_check_calls:
  "llm_calls (snd (enhance_and_check lib item w))
     = llm_calls w + 1
       + (if \<not> mr_passes_threshold (check_module_quality (fst (enhance_module lib item w)))
             \<and> mr_improvement_suggestions
                  (check_module_quality (fst (enhance_module lib item w))) \<noteq> []
          then 1 else 0)"
proof -
  obtain em w1 where e: "enhance_module lib item w = (em, w1)"
    by (cases "enhance_module lib item w")
  have w1: "llm_calls w1 = llm_calls w + 1"
    using enhance_module_world [of lib item w] e by (simp add: invoke_calls)
  show ?thesis
  proof (cases "mr_passes_threshold (check_module_quality em)")
    case True
    then show ?thesis by (simp add: enhance_and_check_def e w1)
  next
    case False
    show ?thesis
    proof (cases "mr_improvement_suggestions (check_module_quality em) = []")
      case True
      with False show ?thesis
        by (simp add: enhance_and_check_def e w1 improve_module_no_suggestions)
    next
      case nonempty: False
      have "snd (improve_module lib em (check_module_quality em) w1) = snd (invoke w1)"
        using False nonempty by (rule improve_module_world)
      then show ?thesis
        using False nonempty by (simp add: enhance_and_check_def e w1 invoke_calls)
    qed
  qed
qed


lemma first_with_id_found:
  assumes "wanted \<in> lesson_id ` set store"
  shows "\<exists>i. first_with_id store wanted = Some i \<and> i < length store"
proof -
  have "takeWhile (\<lambda>l. lesson_id l \<noteq> wanted) store \<noteq> store"
    using assms by (auto simp: takeWhile_eq_all_conv)
  moreover have "length (takeWhile (\<lambda>l. lesson_id l \<noteq> wanted) store) \<le> length store"
    by (rule length_takeWhile_le)
  ultimately have "length (takeWhile (\<lambda>l. lesson_id l \<noteq> wanted) store) < length store"
    by (metis le_neq_implies_less takeWhile_eq_take take_all_iff order_refl)
  then show ?thesis
    by (simp add: first_with_id_def Let_def)
qed

lemma apply_improved_id: "lesson_id (apply_improved f l) = lesson_id l"
  by (simp add: apply_improved_def Let_def)

lemma improve_lesson_id: "lesson_id (fst (improve_lesson lib l ev w)) = lesson_id l"
  by (simp add: improve_lesson_def apply_improved_id split: prod.splits sum.splits)

lemma improve_lesson_calls:
  assumes "\<not> le_passes_threshold ev" and "le_improvement_suggestions ev \<noteq> []"
  shows "llm_calls (snd (improve_lesson lib l ev w)) = llm_calls w + 1"
  using improve_lesson_world [OF assms] by (simp add: invoke_calls)

lemma improve_loop_calls:
  assumes "list_all (\<lambda>ev. le_lesson_id ev \<in> lesson_id ` set store) evals"
    and "list_all (\<lambda>ev. \<not> le_passes_threshold ev \<longrightarrow> le_improvement_suggestions ev \<noteq> []) evals"
  shows "llm_calls (snd (improve_loop lib evals store refs w))
           = llm_calls w + length (filter (\<lambda>ev. \<not> le_passes_threshold ev) evals)"
  using assms
proof (induction evals arbitrary: store refs w)
  case Nil
  then show ?case by simp
next
  case (Cons ev evals)
  from Cons.prems(1) obtain i where i: "first_with_id store (le_lesson_id ev) = Some i"
    and il: "i < length store"
    using first_with_id_found [of "le_lesson_id ev" store] by auto
  show ?case
  proof (cases "le_passes_threshold ev")
    case True
    then show ?thesis
      using Cons.IH [of store "refs @ [Some i]" w] Cons.prems i by simp
  next
    case False
    obtain l' w1 where r: "improve_lesson lib (store ! i) ev w = (l', w1)"
      by (cases "improve_lesson lib (store ! i) ev w")
    have sug: "le_improvement_suggestions ev \<noteq> []"
      using Cons.prems(2) False by simp
    have w1: "llm_calls w1 = llm_calls w + 1"
      using improve_lesson_calls [OF False sug, of lib "store ! i" w] r by simp
    have id: "lesson_id l' = lesson_id (store ! i)"
      using improve_lesson_id [of lib "store ! i" ev w] r by simp
    have "(map lesson_id store) [i := map lesson_id store ! i] = map lesson_id store"
      by (rule list_update_id)
    then have ids: "map lesson_id (store [i := l']) = map lesson_id store"
      using id il by (simp add: map_update)
    have "lesson_id ` set (store [i := l']) = lesson_id ` set store"
      using ids by (metis set_map)
    then have p1: "list_all (\<lambda>ev. le_lesson_id ev \<in> lesson_id ` set (store [i := l'])) evals"
      using Cons.prems(1) by simp
    show ?thesis
      using Cons.IH [OF p1, of "refs @ [Some i]" w1] Cons.prems(2) False i r w1 by simp
  qed
qed

lemma evaluate_lesson_id: "le_lesson_id (evaluate_lesson l ctx) = lesson_id l"
  by (simp add: evaluate_lesson_def Let_def)

lemma check_and_improve_module_quality_calls:
  "llm_calls (snd (check_and_improve_module_quality lib mc w))
     = llm_calls w
       + length (filter (\<lambda>ev. \<not> le_passes_threshold ev) (lesson_evaluations mc))"
proof -
  have a: "list_all (\<lambda>ev. le_lesson_id ev \<in> lesson_id ` set (mlc_lessons mc))
             (lesson_evaluations mc)"
    by (simp add: lesson_evaluations_def list_all_iff evaluate_lesson_id)
  have b: "list_all (\<lambda>ev. \<not> le_passes_threshold ev \<longrightarrow> le_improvement_suggestions ev \<noteq> [])
             (lesson_evaluations mc)"
    by (auto simp: lesson_evaluations_def list_all_iff failing_lesson_has_suggestions)
  obtain st rf w1 where r:
    "improve_loop lib (lesson_evaluations mc) (mlc_lessons mc) [] w = ((st, rf), w1)"
    by (metis prod.exhaust)
  show ?thesis
    using improve_loop_calls [OF a b, of lib "[]" w] r
    by (simp add: check_and_improve_module_quality_def)
qed


text \<open>
  Claim C4, amended. An improve operation calls the provider exactly once when the
  evaluation fails the threshold and carries at least one improvement suggestion.
  It returns its argument unchanged, with no call, when the evaluation passes, and
  also when a module fails the threshold with no suggestion (every criterion at
  least 0.7, mean below 0.8). An evaluation of \<open>evaluate_lesson\<close> that fails always
  carries a suggestion, so a failing lesson costs exactly one call. In the module
  stage each module costs its enhancement call and one more exactly when its report
  fails with a suggestion; in the lesson stage the quality pass over a module makes
  one call for each lesson whose evaluation fails.
\<close>

theorem improve_calls_provider_once:
  "(mr_passes_threshold r \<longrightarrow> improve_module lib m r w = (m, w))
   \<and> (\<not> mr_passes_threshold r \<and> mr_improvement_suggestions r = [] \<longrightarrow>
        improve_module lib m r w = (m, w))
   \<and> (\<not> mr_passes_threshold r \<and> mr_improvement_suggestions r \<noteq> [] \<longrightarrow>
        llm_calls (snd (improve_module lib m r w)) = llm_calls w + 1)
   \<and> (le_passes_threshold ev \<longrightarrow> improve_lesson lib l ev w = (l, w))
   \<and> (\<not> le_passes_threshold (evaluate_lesson l0 ctx) \<longrightarrow>
        llm_calls (snd (improve_lesson lib l (evaluate_lesson l0 ctx) w)) = llm_calls w + 1)
   \<and> llm_calls (snd (enhance_and_check lib item w))
       = llm_calls w + 1
         + (if \<not> mr_passes_threshold (check_module_quality (fst (enhance_module lib item w)))
               \<and> mr_improvement_suggestions
                    (check_module_quality (fst (enhance_module lib item w))) \<noteq> []
            then 1 else 0)
   \<and> llm_calls (snd (check_and_improve_module_quality lib mc w))
       = llm_calls w
         + length (filter (\<lambda>e. \<not> le_passes_threshold e) (lesson_evaluations mc))"
proof (intro conjI impI)
  assume "mr_passes_threshold r"
  then show "improve_module lib m r w = (m, w)"
    by (rule improve_module_passing)
next
  assume "\<not> mr_passes_threshold r \<and> mr_improvement_suggestions r = []"
  then show "improve_module lib m r w = (m, w)"
    by (simp add: improve_module_no_suggestions)
next
  assume a: "\<not> mr_passes_threshold r \<and> mr_improvement_suggestions r \<noteq> []"
  then have "snd (improve_module lib m r w) = snd (invoke w)"
    by (simp add: improve_module_world)
  then show "llm_calls (snd (improve_module lib m r w)) = llm_calls w + 1"
    by (simp add: invoke_calls)
next
  assume "le_passes_threshold ev"
  then show "improve_lesson lib l ev w = (l, w)"
    by (rule improve_lesson_passing)
next
  assume f: "\<not> le_passes_threshold (evaluate_lesson l0 ctx)"
  then have "le_improvement_suggestions (evaluate_lesson l0 ctx) \<noteq> []"
    by (rule failing_lesson_has_suggestions)
  with f show "llm_calls (snd (improve_lesson lib l (evaluate_lesson l0 ctx) w))
      = llm_calls w + 1"
    by (rule improve_lesson_calls)
next
  show "llm_calls (snd (enhance_and_check lib item w))
       = llm_calls w + 1
         + (if \<not> mr_passes_threshold (check_module_quality (fst (enhance_module lib item w)))
               \<and> mr_improvement_suggestions
                    (check_module_quality (fst (enhance_module lib item w))) \<noteq> []
            then 1 else 0)"
    by (rule enhance_and_check_calls)
next
  show "llm_calls (snd (check_and_improve_module_quality lib mc w))
       = llm_calls w
         + length (filter (\<lambda>e. \<not> le_passes_threshold e) (lesson_evaluations mc))"
    by (rule check_and_improve_module_quality_calls)
qed

text \<open>
  The example lesson fails its evaluation; improving it makes the one call. A
  passing report leaves module and world as they are.
\<close>

theorem improve_calls_provider_once_witness:
  "\<not> le_passes_threshold (evaluate_lesson draft_lesson None)
   \<and> llm_calls (snd (improve_lesson idle_library draft_lesson
                       (evaluate_lesson draft_lesson None) (quiet_world [Inr ''Title: Lists''])))
       = llm_calls (quiet_world [Inr ''Title: Lists'']) + 1
   \<and> improve_module idle_library plain_module
        (check_module_quality plain_module \<lparr> mr_passes_threshold := True \<rparr>) (quiet_world [])
       = (plain_module, quiet_world [])"
proof -
  have f: "\<not> le_passes_threshold (evaluate_lesson draft_lesson None)"
    by code_simp
  have p: "mr_passes_threshold (check_module_quality plain_module \<lparr> mr_passes_threshold := True \<rparr>)"
    by simp
  note t = improve_calls_provider_once
    [of "check_module_quality plain_module \<lparr> mr_passes_threshold := True \<rparr>"
        idle_library plain_module "quiet_world []"
        "evaluate_lesson draft_lesson None" draft_lesson draft_lesson None]
  have a: "improve_module idle_library plain_module
        (check_module_quality plain_module \<lparr> mr_passes_threshold := True \<rparr>) (quiet_world [])
       = (plain_module, quiet_world [])"
    using t p by blast
  note u = improve_calls_provider_once
    [of "check_module_quality plain_module" idle_library plain_module
        "quiet_world [Inr ''Title: Lists'']"
        "evaluate_lesson draft_lesson None" draft_lesson draft_lesson None]
  have b: "llm_calls (snd (improve_lesson idle_library draft_lesson
                       (evaluate_lesson draft_lesson None) (quiet_world [Inr ''Title: Lists''])))
       = llm_calls (quiet_world [Inr ''Title: Lists'']) + 1"
    using u f by blast
  show ?thesis
    using f a b by simp
qed

text \<open>
  Claim C4 as stated fails for modules. The example module scores 0.7, 0.8, 0.8, 0.75
  and 0.85 on the five criteria: its quality score is 78, below the threshold of 80,
  and no criterion is below 0.7, so there is no suggestion. \<open>improve_module\<close>
  returns it unchanged and the provider is not called; the step of
  \<open>module_generater\<close> that enhances and checks it makes the enhancement call and no
  other, and the second reply of the provider stays unused.
\<close>

theorem improve_module_without_call_counterexample:
  "\<not> mr_passes_threshold (check_module_quality plain_module)
   \<and> mr_quality_score (check_module_quality plain_module) = 78
   \<and> mr_criteria (check_module_quality plain_module)
       = \<lparr> title_quality = 7 / 10, description_quality = 8 / 10,
           learning_objectives_quality = 8 / 10, key_topics_quality = 75 / 100,
           practical_relevance = 85 / 100 \<rparr>
   \<and> improve_module idle_library plain_module (check_module_quality plain_module)
        (quiet_world [Inr ''{}'']) = (plain_module, quiet_world [Inr ''{}''])
   \<and> llm_calls (snd (improve_module idle_library plain_module
                       (check_module_quality plain_module) (quiet_world [Inr ''{}''])))
       \<noteq> llm_calls (quiet_world [Inr ''{}'']) + 1
   \<and> fst (enhance_and_check plain_library plain_item
             (quiet_world [Inr ''enhanced'', Inr ''improved''])) = plain_module
   \<and> llm_calls (snd (enhance_and_check plain_library plain_item
                       (quiet_world [Inr ''enhanced'', Inr ''improved'']))) = 1
   \<and> llm_replies (snd (enhance_and_check plain_library plain_item
                         (quiet_world [Inr ''enhanced'', Inr ''improved''])))
       = [Inr ''improved'']"
proof -
  have f: "\<not> mr_passes_threshold (check_module_quality plain_module)"
    by code_simp
  have q: "mr_quality_score (check_module_quality plain_module) = 78"
    by code_simp
  have s: "mr_improvement_suggestions (check_module_quality plain_module) = []"
    by code_simp
  have c: "mr_criteria (check_module_quality plain_module)
       = \<lparr> title_quality = 7 / 10, description_quality = 8 / 10,
           learning_objectives_quality = 8 / 10, key_topics_quality = 75 / 100,
           practical_relevance = 85 / 100 \<rparr>"
    by code_simp
  have u: "improve_module idle_library plain_module (check_module_quality plain_module)
        (quiet_world [Inr ''{}'']) = (plain_module, quiet_world [Inr ''{}''])"
    using s by (rule improve_module_no_suggestions)
  have e1: "fst (enhance_and_check plain_library plain_item
             (quiet_world [Inr ''enhanced'', Inr ''improved''])) = plain_module"
    by code_simp
  have e2: "llm_calls (snd (enhance_and_check plain_library plain_item
                       (quiet_world [Inr ''enhanced'', Inr ''improved'']))) = 1"
    by code_simp
  have e3: "llm_replies (snd (enhance_and_check plain_library plain_item
                         (quiet_world [Inr ''enhanced'', Inr ''improved''])))
       = [Inr ''improved'']"
    by code_simp
  show ?thesis
    using f q c e1 e2 e3 by (simp add: u)
qed

section \<open>The generation stages only call the provider\<close>

text \<open>
  Every function of the three generation stages leaves the database as it is and adds
  nothing to the trace but calls of the provider.
\<close>

lemma calls_only_refl: "calls_only w w"
  unfolding calls_only_def by (intro conjI exI [of _ 0]) simp_all

lemma calls_only_trans:
  assumes "calls_only w w1" and "calls_only w1 w2"
  shows "calls_only w w2"
proof -
  obtain j where j: "events w1 = events w @ replicate j LlmCall"
    using assms(1) by (auto simp: calls_only_def)
  obtain k where k: "events w2 = events w1 @ replicate k LlmCall"
    using assms(2) by (auto simp: calls_only_def)
  have "events w2 = events w @ replicate (j + k) LlmCall"
    by (simp add: j k replicate_add)
  then have "\<exists>n. events w2 = events w @ replicate n LlmCall" ..
  then show ?thesis
    using assms by (simp add: calls_only_def)
qed

lemma invoke_frame:
  assumes "invoke w = (r, w')"
  shows "calls_only w w'"
proof -
  have "events w' = events w @ replicate 1 LlmCall"
    using assms by (auto simp: invoke_def split: list.splits)
  then have "\<exists>k. events w' = events w @ replicate k LlmCall" ..
  then show ?thesis
    using assms by (auto simp: calls_only_def invoke_def split: list.splits)
qed

lemma unique_id_frame:
  assumes "unique_id_generator p w = (r, w')"
  shows "calls_only w w'"
proof -
  have "events w' = events w @ replicate 0 LlmCall"
    using assms by (auto simp: unique_id_generator_def split: list.splits)
  then have "\<exists>k. events w' = events w @ replicate k LlmCall" ..
  then show ?thesis
    using assms by (auto simp: calls_only_def unique_id_generator_def split: list.splits)
qed

lemma improve_description_frame:
  assumes "improve_description d fb w = (r, w')"
  shows "calls_only w w'"
  using assms
  by (auto simp: improve_description_def split: if_splits prod.splits sum.splits
      intro: calls_only_refl dest: invoke_frame)

lemma generate_description_frame:
  assumes "generate_description data uid w = (r, w')"
  shows "calls_only w w'"
  using assms
  by (auto simp: generate_description_def Let_def
      split: if_splits prod.splits sum.splits
      intro: calls_only_refl calls_only_trans dest: invoke_frame improve_description_frame)

lemma generate_curriculum_structure_frame:
  assumes "generate_curriculum_structure lib w = (r, w')"
  shows "calls_only w w'"
  using assms
  by (auto simp: generate_curriculum_structure_def
      split: prod.splits sum.splits option.splits dest: invoke_frame)

lemma enhance_module_frame:
  assumes "enhance_module lib item w = (r, w')"
  shows "calls_only w w'"
  using assms
  by (auto simp: enhance_module_def
      split: prod.splits sum.splits option.splits dest: invoke_frame)

lemma improve_module_frame:
  assumes "improve_module lib m rep w = (r, w')"
  shows "calls_only w w'"
  using assms
  by (auto simp: improve_module_def
      split: if_splits prod.splits sum.splits option.splits
      intro: calls_only_refl dest: invoke_frame)

lemma enhance_and_check_frame:
  assumes "enhance_and_check lib item w = (r, w')"
  shows "calls_only w w'"
  using assms
  by (auto simp: enhance_and_check_def Let_def
      split: if_splits prod.splits
      intro: calls_only_trans dest: enhance_module_frame improve_module_frame)

lemma enhance_all_frame:
  assumes "enhance_all lib items w = (r, w')"
  shows "calls_only w w'"
  using assms
proof (induction items arbitrary: w r w')
  case Nil
  then show ?case by (simp add: calls_only_refl)
next
  case (Cons item items)
  obtain m w1 where a: "enhance_and_check lib item w = (m, w1)"
    by (cases "enhance_and_check lib item w")
  obtain rest w2 where b: "enhance_all lib items w1 = (rest, w2)"
    by (cases "enhance_all lib items w1")
  have "w' = w2" using Cons.prems a b by simp
  moreover have "calls_only w w1" using a by (rule enhance_and_check_frame)
  moreover have "calls_only w1 w2" using b by (rule Cons.IH)
  ultimately show ?case using calls_only_trans by blast
qed

lemma module_generater_frame:
  assumes "module_generater lib w = (r, w')"
  shows "calls_only w w'"
proof -
  obtain c w1 where a: "generate_curriculum_structure lib w = (c, w1)"
    by (cases "generate_curriculum_structure lib w")
  have c1: "calls_only w w1" using a by (rule generate_curriculum_structure_frame)
  show ?thesis
  proof (cases c)
    case (Inl e)
    then show ?thesis using assms a c1 by (simp add: module_generater_def)
  next
    case (Inr out)
    obtain ms w2 where b: "enhance_all lib (mo_modules out) w1 = (ms, w2)"
      by (cases "enhance_all lib (mo_modules out) w1")
    have "calls_only w1 w2" using b by (rule enhance_all_frame)
    then have "calls_only w w2" using c1 calls_only_trans by blast
    moreover have "w' = w2"
      using assms a Inr b
      by (auto simp: module_generater_def Let_def split: list.splits option.splits)
    ultimately show ?thesis by simp
  qed
qed

lemma assign_module_ids_frame:
  assumes "assign_module_ids ms w = (r, w')"
  shows "calls_only w w'"
  using assms
proof (induction ms arbitrary: w r w')
  case Nil
  then show ?case by (simp add: calls_only_refl)
next
  case (Cons m ms)
  obtain i w1 where a: "unique_id_generator ''MODULE'' w = (i, w1)"
    by (cases "unique_id_generator ''MODULE'' w")
  obtain rest w2 where b: "assign_module_ids ms w1 = (rest, w2)"
    by (cases "assign_module_ids ms w1")
  have "w' = w2" using Cons.prems a b by simp
  moreover have "calls_only w w1" using a by (rule unique_id_frame)
  moreover have "calls_only w1 w2" using b by (rule Cons.IH)
  ultimately show ?case using calls_only_trans by blast
qed

lemma generate_module_frame:
  assumes "generate_module lib data w = (r, w')"
  shows "calls_only w w'"
  using assms
  by (auto simp: generate_module_def Let_def
      split: prod.splits sum.splits
      intro: calls_only_trans dest: module_generater_frame assign_module_ids_frame)


lemma assign_lesson_ids_frame:
  assumes "assign_lesson_ids ls w = (r, w')"
  shows "calls_only w w'"
  using assms
proof (induction ls arbitrary: w r w')
  case Nil
  then show ?case by (simp add: calls_only_refl)
next
  case (Cons l ls)
  obtain i w1 where a: "unique_id_generator ''LESSON'' w = (i, w1)"
    by (cases "unique_id_generator ''LESSON'' w")
  obtain rest w2 where b: "assign_lesson_ids ls w1 = (rest, w2)"
    by (cases "assign_lesson_ids ls w1")
  have "w' = w2" using Cons.prems a b by simp
  moreover have "calls_only w w1" using a by (rule unique_id_frame)
  moreover have "calls_only w1 w2" using b by (rule Cons.IH)
  ultimately show ?case using calls_only_trans by blast
qed

lemma generate_lesson_outlines_frame:
  assumes "generate_lesson_outlines lib m w = (r, w')"
  shows "calls_only w w'"
  using assms
  by (auto simp: generate_lesson_outlines_def Let_def
      split: if_splits prod.splits sum.splits option.splits
      intro: calls_only_refl calls_only_trans dest: invoke_frame assign_lesson_ids_frame)

lemma expand_lesson_content_frame:
  assumes "expand_lesson_content lib l w = (r, w')"
  shows "calls_only w w'"
  using assms
  by (auto simp: expand_lesson_content_def Let_def
      split: if_splits prod.splits sum.splits dest: invoke_frame)

lemma expand_all_frame:
  assumes "expand_all lib ls w = (r, w')"
  shows "calls_only w w'"
  using assms
proof (induction ls arbitrary: w r w')
  case Nil
  then show ?case by (simp add: calls_only_refl)
next
  case (Cons l ls)
  obtain x w1 where a: "expand_lesson_content lib l w = (x, w1)"
    by (cases "expand_lesson_content lib l w")
  obtain rest w2 where b: "expand_all lib ls w1 = (rest, w2)"
    by (cases "expand_all lib ls w1")
  have "w' = w2" using Cons.prems a b by simp
  moreover have "calls_only w w1" using a by (rule expand_lesson_content_frame)
  moreover have "calls_only w1 w2" using b by (rule Cons.IH)
  ultimately show ?case using calls_only_trans by blast
qed

lemma improve_lesson_frame:
  assumes "improve_lesson lib l ev w = (r, w')"
  shows "calls_only w w'"
  using assms
  by (auto simp: improve_lesson_def
      split: if_splits prod.splits sum.splits
      intro: calls_only_refl dest: invoke_frame)

lemma improve_loop_frame:
  assumes "improve_loop lib evals store refs w = (r, w')"
  shows "calls_only w w'"
  using assms
proof (induction evals arbitrary: store refs w r w')
  case Nil
  then show ?case by (simp add: calls_only_refl)
next
  case (Cons ev evals)
  show ?case
  proof (cases "first_with_id store (le_lesson_id ev)")
    case None
    then show ?thesis using Cons.prems Cons.IH by simp
  next
    case (Some i)
    show ?thesis
    proof (cases "le_passes_threshold ev")
      case True
      then show ?thesis using Cons.prems Cons.IH Some by simp
    next
      case False
      obtain l' w1 where a: "improve_lesson lib (store ! i) ev w = (l', w1)"
        by (cases "improve_lesson lib (store ! i) ev w")
      have c1: "calls_only w w1" using a by (rule improve_lesson_frame)
      have "improve_loop lib evals (store [i := l']) (refs @ [Some i]) w1 = (r, w')"
        using Cons.prems Some False a by simp
      then have "calls_only w1 w'" by (rule Cons.IH)
      then show ?thesis using c1 calls_only_trans by blast
    qed
  qed
qed

lemma check_and_improve_module_quality_frame:
  assumes "check_and_improve_module_quality lib mc w = (r, w')"
  shows "calls_only w w'"
proof -
  obtain st rf w1 where a:
    "improve_loop lib (lesson_evaluations mc) (mlc_lessons mc) [] w = ((st, rf), w1)"
    by (metis prod.exhaust)
  have "w' = w1" using assms a by (simp add: check_and_improve_module_quality_def)
  then show ?thesis using improve_loop_frame [OF a] by simp
qed

lemma lessons_for_modules_frame:
  assumes "lessons_for_modules lib ms w = (r, w')"
  shows "calls_only w w'"
  using assms
proof (induction ms arbitrary: w r w')
  case Nil
  then show ?case by (simp add: calls_only_refl)
next
  case (Cons m ms)
  obtain o1 w1 where a: "generate_lesson_outlines lib m w = (o1, w1)"
    by (cases "generate_lesson_outlines lib m w")
  have c1: "calls_only w w1" using a by (rule generate_lesson_outlines_frame)
  show ?case
  proof (cases o1)
    case (Inl e)
    then show ?thesis using Cons.prems a c1 by simp
  next
    case (Inr outline)
    obtain ex w2 where b: "expand_all lib (mlc_lessons outline) w1 = (ex, w2)"
      by (cases "expand_all lib (mlc_lessons outline) w1")
    obtain ch w3 where c:
      "check_and_improve_module_quality lib (outline \<lparr> mlc_lessons := ex \<rparr>) w2 = (ch, w3)"
      by (cases "check_and_improve_module_quality lib (outline \<lparr> mlc_lessons := ex \<rparr>) w2")
    obtain rest w4 where d: "lessons_for_modules lib ms w3 = (rest, w4)"
      by (cases "lessons_for_modules lib ms w3")
    have "calls_only w1 w2" using b by (rule expand_all_frame)
    moreover have "calls_only w2 w3" using c by (rule check_and_improve_module_quality_frame)
    moreover have "calls_only w3 w4" using d by (rule Cons.IH)
    ultimately have "calls_only w w4" using c1 calls_only_trans by blast
    moreover have "w' = w4"
      using Cons.prems a Inr b c d by (auto split: sum.splits)
    ultimately show ?thesis by simp
  qed
qed

lemma generate_lessons_frame:
  assumes "generate_lessons_for_each_module lib ms cid w = (r, w')"
  shows "calls_only w w'"
  using assms
  by (auto simp: generate_lessons_for_each_module_def
      split: prod.splits sum.splits dest: lessons_for_modules_frame)


section \<open>The order of stages and writes in a course-generation run\<close>

lemma stage_events_calls: "stage_events (replicate k LlmCall) = []"
  by (simp add: stage_events_def)

lemma stage_events_append: "stage_events (a @ b) = stage_events a @ stage_events b"
  by (simp add: stage_events_def)

lemma calls_only_events:
  assumes "calls_only w w'"
  obtains k where "events w' = events w @ replicate k LlmCall"
  using assms by (auto simp: calls_only_def)

lemma insert_one_document_cases:
  assumes "insert_one_document c d w = (r, w')"
  shows "(\<exists>e. r = Inl e \<and> events w' = events w
            \<and> courses_collection w' = courses_collection w
            \<and> modules_collection w' = modules_collection w
            \<and> lessons_collection w' = lessons_collection w)
       \<or> (r = Inr Updated \<and> events w' = events w @ [DbInsert c]
            \<and> collection c w' = collection c w @ [d]
            \<and> (c \<noteq> Courses \<longrightarrow> courses_collection w' = courses_collection w)
            \<and> (c \<noteq> Modules \<longrightarrow> modules_collection w' = modules_collection w)
            \<and> (c \<noteq> Lessons \<longrightarrow> lessons_collection w' = lessons_collection w))"
  using assms
  by (cases c)
     (auto simp: insert_one_document_def insert_one_def add_document_def collection_def
      split: list.splits option.splits)

text \<open>What a step adds to the trace and to the database.\<close>

lemma lessons_step_trace:
  assumes "lessons_step lib gm uid w = (r, w')"
  shows "\<exists>tr. events w' = events w @ tr
           \<and> prefix (stage_events tr) [Begins LessonStage, DbInsert Lessons]
           \<and> ((\<exists>a. r = Inr a) \<longrightarrow>
                stage_events tr = [Begins LessonStage, DbInsert Lessons]
                \<and> courses_collection w' = courses_collection w
                \<and> modules_collection w' = modules_collection w
                \<and> (\<exists>l. lessons_collection w' = lessons_collection w @ [LessonsDoc l]))"
proof -
  let ?w0 = "log_event (Begins LessonStage) w"
  obtain g w1 where a:
    "generate_lessons_for_each_module lib (cu_modules (md_curriculum gm)) uid ?w0 = (g, w1)"
    by (metis prod.exhaust)
  have c: "calls_only ?w0 w1" using a by (rule generate_lessons_frame)
  then obtain k where k: "events w1 = events w @ [Begins LessonStage] @ replicate k LlmCall"
    by (auto simp: log_event_def elim: calls_only_events)
  have db1: "courses_collection w1 = courses_collection w"
    "modules_collection w1 = modules_collection w"
    "lessons_collection w1 = lessons_collection w"
    using c by (simp_all add: calls_only_def log_event_def)
  show ?thesis
  proof (cases g)
    case (Inl e)
    then have "r = Inl e" "w' = w1" using assms a by (simp_all add: lessons_step_def)
    then show ?thesis
      using k by (auto simp: stage_events_def)
  next
    case (Inr lessons)
    obtain i w2 where b: "insert_one_document Lessons (LessonsDoc lessons) w1 = (i, w2)"
      by (metis prod.exhaust)
    have w': "w' = w2" using assms a Inr b by (auto simp: lessons_step_def split: sum.splits)
    from insert_one_document_cases [OF b] show ?thesis
    proof
      assume "\<exists>e. i = Inl e \<and> events w2 = events w1
            \<and> courses_collection w2 = courses_collection w1
            \<and> modules_collection w2 = modules_collection w1
            \<and> lessons_collection w2 = lessons_collection w1"
      then obtain e where "i = Inl e" and ev: "events w2 = events w1" by blast
      then have "r = Inl e" using assms a Inr b by (simp add: lessons_step_def)
      then show ?thesis
        using k ev w' by (auto simp: stage_events_def)
    next
      assume s: "i = Inr Updated \<and> events w2 = events w1 @ [DbInsert Lessons]
            \<and> collection Lessons w2 = collection Lessons w1 @ [LessonsDoc lessons]
            \<and> (Lessons \<noteq> Courses \<longrightarrow> courses_collection w2 = courses_collection w1)
            \<and> (Lessons \<noteq> Modules \<longrightarrow> modules_collection w2 = modules_collection w1)
            \<and> (Lessons \<noteq> Lessons \<longrightarrow> lessons_collection w2 = lessons_collection w1)"
      then have "events w' = events w @ ([Begins LessonStage] @ replicate k LlmCall
                   @ [DbInsert Lessons])"
        using k w' by simp
      moreover have "stage_events ([Begins LessonStage] @ replicate k LlmCall
                   @ [DbInsert Lessons]) = [Begins LessonStage, DbInsert Lessons]"
        by (simp add: stage_events_def)
      moreover have "courses_collection w' = courses_collection w"
        "modules_collection w' = modules_collection w"
        "lessons_collection w' = lessons_collection w @ [LessonsDoc lessons]"
        using s w' db1 by (simp_all add: collection_def)
      ultimately show ?thesis
        by (metis prefix_order.order_refl)
    qed
  qed
qed


lemma modules_step_trace:
  assumes "modules_step lib description uid w = (r, w')"
  shows "\<exists>tr. events w' = events w @ tr
           \<and> prefix (stage_events tr)
                [Begins ModuleStage, DbInsert Modules, Begins LessonStage, DbInsert Lessons]
           \<and> ((\<exists>a. r = Inr a) \<longrightarrow>
                stage_events tr
                  = [Begins ModuleStage, DbInsert Modules, Begins LessonStage, DbInsert Lessons]
                \<and> courses_collection w' = courses_collection w
                \<and> (\<exists>m. modules_collection w' = modules_collection w @ [ModulesDoc m])
                \<and> (\<exists>l. lessons_collection w' = lessons_collection w @ [LessonsDoc l]))"
proof -
  let ?w0 = "log_event (Begins ModuleStage) w"
  obtain g w1 where a: "generate_module lib description ?w0 = (g, w1)"
    by (metis prod.exhaust)
  have c: "calls_only ?w0 w1" using a by (rule generate_module_frame)
  then obtain k where k: "events w1 = events w @ [Begins ModuleStage] @ replicate k LlmCall"
    by (auto simp: log_event_def elim: calls_only_events)
  have db1: "courses_collection w1 = courses_collection w"
    "modules_collection w1 = modules_collection w"
    "lessons_collection w1 = lessons_collection w"
    using c by (simp_all add: calls_only_def log_event_def)
  show ?thesis
  proof (cases g)
    case (ExceptionObject obj)
    then have "r = Inl (TypeError ''CustomException object is not subscriptable'')" "w' = w1"
      using assms a by (auto simp: modules_step_def)
    then show ?thesis
      using k by (intro exI [of _ "[Begins ModuleStage] @ replicate k LlmCall"])
        (auto simp: stage_events_def)
  next
    case (ModulesDict gm)
    obtain i w2 where b: "insert_one_document Modules (ModulesDoc gm) w1 = (i, w2)"
      by (metis prod.exhaust)
    from insert_one_document_cases [OF b] show ?thesis
    proof
      assume "\<exists>e. i = Inl e \<and> events w2 = events w1
            \<and> courses_collection w2 = courses_collection w1
            \<and> modules_collection w2 = modules_collection w1
            \<and> lessons_collection w2 = lessons_collection w1"
      then obtain e where i: "i = Inl e" and ev: "events w2 = events w1" by blast
      then have "r = Inl e" "w' = w2"
        using assms a ModulesDict b by (simp_all add: modules_step_def)
      then show ?thesis
        using k ev by (intro exI [of _ "[Begins ModuleStage] @ replicate k LlmCall"])
          (auto simp: stage_events_def)
    next
      assume s: "i = Inr Updated \<and> events w2 = events w1 @ [DbInsert Modules]
            \<and> collection Modules w2 = collection Modules w1 @ [ModulesDoc gm]
            \<and> (Modules \<noteq> Courses \<longrightarrow> courses_collection w2 = courses_collection w1)
            \<and> (Modules \<noteq> Modules \<longrightarrow> modules_collection w2 = modules_collection w1)
            \<and> (Modules \<noteq> Lessons \<longrightarrow> lessons_collection w2 = lessons_collection w1)"
      then have next_step: "lessons_step lib gm uid w2 = (r, w')"
        using assms a ModulesDict b by (simp add: modules_step_def)
      have db2: "courses_collection w2 = courses_collection w"
        "modules_collection w2 = modules_collection w @ [ModulesDoc gm]"
        "lessons_collection w2 = lessons_collection w"
        using s db1 by (simp_all add: collection_def)
      from lessons_step_trace [OF next_step] obtain tr2 where
        t2: "events w' = events w2 @ tr2
           \<and> prefix (stage_events tr2) [Begins LessonStage, DbInsert Lessons]
           \<and> ((\<exists>a. r = Inr a) \<longrightarrow>
                stage_events tr2 = [Begins LessonStage, DbInsert Lessons]
                \<and> courses_collection w' = courses_collection w2
                \<and> modules_collection w' = modules_collection w2
                \<and> (\<exists>l. lessons_collection w' = lessons_collection w2 @ [LessonsDoc l]))" ..
      note e2 = t2 [THEN conjunct1]
      note p2 = t2 [THEN conjunct2, THEN conjunct1]
      note ok2 = t2 [THEN conjunct2, THEN conjunct2]
      let ?tr = "[Begins ModuleStage] @ replicate k LlmCall @ [DbInsert Modules] @ tr2"
      have e: "events w' = events w @ ?tr"
        using e2 s k by simp
      have st: "stage_events ?tr = [Begins ModuleStage, DbInsert Modules] @ stage_events tr2"
        by (simp add: stage_events_def)
      have p: "prefix (stage_events ?tr)
                [Begins ModuleStage, DbInsert Modules, Begins LessonStage, DbInsert Lessons]"
        unfolding st using p2 by simp
      have ok: "(\<exists>a. r = Inr a) \<longrightarrow>
                stage_events ?tr
                  = [Begins ModuleStage, DbInsert Modules, Begins LessonStage, DbInsert Lessons]
                \<and> courses_collection w' = courses_collection w
                \<and> (\<exists>m. modules_collection w' = modules_collection w @ [ModulesDoc m])
                \<and> (\<exists>l. lessons_collection w' = lessons_collection w @ [LessonsDoc l])"
      proof
        assume "\<exists>a. r = Inr a"
        with ok2 have s1: "stage_events tr2 = [Begins LessonStage, DbInsert Lessons]"
          and s2: "courses_collection w' = courses_collection w2"
          and s3: "modules_collection w' = modules_collection w2"
          and s4: "\<exists>l. lessons_collection w' = lessons_collection w2 @ [LessonsDoc l]"
          by blast+
        have "\<exists>m. modules_collection w' = modules_collection w @ [ModulesDoc m]"
          using s3 db2 by simp
        then show "stage_events ?tr
                  = [Begins ModuleStage, DbInsert Modules, Begins LessonStage, DbInsert Lessons]
                \<and> courses_collection w' = courses_collection w
                \<and> (\<exists>m. modules_collection w' = modules_collection w @ [ModulesDoc m])
                \<and> (\<exists>l. lessons_collection w' = lessons_collection w @ [LessonsDoc l])"
          unfolding st using s1 s2 s4 db2 by simp
      qed
      show ?thesis
        by (rule exI [of _ ?tr]) (intro conjI e p ok)
    qed
  qed
qed

lemma description_step_trace:
  assumes "description_step lib data w = (r, w')"
  shows "\<exists>tr. events w' = events w @ tr
           \<and> prefix (stage_events tr) pipeline_order
           \<and> ((\<exists>a. r = Inr a) \<longrightarrow>
                stage_events tr = pipeline_order
                \<and> (\<exists>d. courses_collection w' = courses_collection w @ [CourseDoc d])
                \<and> (\<exists>m. modules_collection w' = modules_collection w @ [ModulesDoc m])
                \<and> (\<exists>l. lessons_collection w' = lessons_collection w @ [LessonsDoc l]))"
proof -
  obtain uid wu where u: "unique_id_generator ''COURSE'' w = (uid, wu)"
    by (metis prod.exhaust)
  have cu: "calls_only w wu" using u by (rule unique_id_frame)
  have evu: "events wu = events w"
    using u by (auto simp: unique_id_generator_def split: list.splits)
  let ?w0 = "log_event (Begins DescriptionStage) wu"
  obtain g w1 where a: "generate_description data uid ?w0 = (g, w1)"
    by (metis prod.exhaust)
  have c: "calls_only ?w0 w1" using a by (rule generate_description_frame)
  then obtain k where k:
    "events w1 = events w @ [Begins DescriptionStage] @ replicate k LlmCall"
    using evu by (auto simp: log_event_def elim: calls_only_events)
  have db1: "courses_collection w1 = courses_collection w"
    "modules_collection w1 = modules_collection w"
    "lessons_collection w1 = lessons_collection w"
    using c cu by (simp_all add: calls_only_def log_event_def)
  show ?thesis
  proof (cases g)
    case (Inl e)
    then have "r = Inl e" "w' = w1" using assms u a by (simp_all add: description_step_def)
    then show ?thesis
      using k by (intro exI [of _ "[Begins DescriptionStage] @ replicate k LlmCall"])
        (auto simp: stage_events_def pipeline_order_def)
  next
    case (Inr description)
    obtain i w2 where b: "insert_one_document Courses (CourseDoc description) w1 = (i, w2)"
      by (metis prod.exhaust)
    from insert_one_document_cases [OF b] show ?thesis
    proof
      assume "\<exists>e. i = Inl e \<and> events w2 = events w1
            \<and> courses_collection w2 = courses_collection w1
            \<and> modules_collection w2 = modules_collection w1
            \<and> lessons_collection w2 = lessons_collection w1"
      then obtain e where i: "i = Inl e" and ev: "events w2 = events w1" by blast
      then have "r = Inl e" "w' = w2"
        using assms u a Inr b by (simp_all add: description_step_def)
      then show ?thesis
        using k ev by (intro exI [of _ "[Begins DescriptionStage] @ replicate k LlmCall"])
          (auto simp: stage_events_def pipeline_order_def)
    next
      assume s: "i = Inr Updated \<and> events w2 = events w1 @ [DbInsert Courses]
            \<and> collection Courses w2 = collection Courses w1 @ [CourseDoc description]
            \<and> (Courses \<noteq> Courses \<longrightarrow> courses_collection w2 = courses_collection w1)
            \<and> (Courses \<noteq> Modules \<longrightarrow> modules_collection w2 = modules_collection w1)
            \<and> (Courses \<noteq> Lessons \<longrightarrow> lessons_collection w2 = lessons_collection w1)"
      then have next_step: "modules_step lib description uid w2 = (r, w')"
        using assms u a Inr b by (simp add: description_step_def)
      have db2: "courses_collection w2 = courses_collection w @ [CourseDoc description]"
        "modules_collection w2 = modules_collection w"
        "lessons_collection w2 = lessons_collection w"
        using s db1 by (simp_all add: collection_def)
      from modules_step_trace [OF next_step] obtain tr2 where
        t2: "events w' = events w2 @ tr2
           \<and> prefix (stage_events tr2)
                [Begins ModuleStage, DbInsert Modules, Begins LessonStage, DbInsert Lessons]
           \<and> ((\<exists>a. r = Inr a) \<longrightarrow>
                stage_events tr2
                  = [Begins ModuleStage, DbInsert Modules, Begins LessonStage, DbInsert Lessons]
                \<and> courses_collection w' = courses_collection w2
                \<and> (\<exists>m. modules_collection w' = modules_collection w2 @ [ModulesDoc m])
                \<and> (\<exists>l. lessons_collection w' = lessons_collection w2 @ [LessonsDoc l]))" ..
      note e2 = t2 [THEN conjunct1]
      note p2 = t2 [THEN conjunct2, THEN conjunct1]
      note ok2 = t2 [THEN conjunct2, THEN conjunct2]
      let ?tr = "[Begins DescriptionStage] @ replicate k LlmCall @ [DbInsert Courses] @ tr2"
      have e: "events w' = events w @ ?tr"
        using e2 s k by simp
      have st: "stage_events ?tr
                  = [Begins DescriptionStage, DbInsert Courses] @ stage_events tr2"
        by (simp add: stage_events_def)
      have p: "prefix (stage_events ?tr) pipeline_order"
        unfolding st pipeline_order_def using p2 by simp
      have ok: "(\<exists>a. r = Inr a) \<longrightarrow>
                stage_events ?tr = pipeline_order
                \<and> (\<exists>d. courses_collection w' = courses_collection w @ [CourseDoc d])
                \<and> (\<exists>m. modules_collection w' = modules_collection w @ [ModulesDoc m])
                \<and> (\<exists>l. lessons_collection w' = lessons_collection w @ [LessonsDoc l])"
      proof
        assume "\<exists>a. r = Inr a"
        with ok2 have s1: "stage_events tr2
                  = [Begins ModuleStage, DbInsert Modules, Begins LessonStage, DbInsert Lessons]"
          and s2: "courses_collection w' = courses_collection w2"
          and s3: "\<exists>m. modules_collection w' = modules_collection w2 @ [ModulesDoc m]"
          and s4: "\<exists>l. lessons_collection w' = lessons_collection w2 @ [LessonsDoc l]"
          by blast+
        have "\<exists>d. courses_collection w' = courses_collection w @ [CourseDoc d]"
          using s2 db2 by simp
        then show "stage_events ?tr = pipeline_order
                \<and> (\<exists>d. courses_collection w' = courses_collection w @ [CourseDoc d])
                \<and> (\<exists>m. modules_collection w' = modules_collection w @ [ModulesDoc m])
                \<and> (\<exists>l. lessons_collection w' = lessons_collection w @ [LessonsDoc l])"
          unfolding st pipeline_order_def using s1 s3 s4 db2 by simp
      qed
      show ?thesis
        by (rule exI [of _ ?tr]) (intro conjI e p ok)
    qed
  qed
qed


lemma wrap_custom_world: "snd (wrap_custom x) = snd x"
  by (cases x) (auto simp: wrap_custom_def split: sum.splits)

lemma wrap_custom_ok: "(fst (wrap_custom x) = Inr a) = (fst x = Inr a)"
  by (cases x) (auto simp: wrap_custom_def split: sum.splits)



lemma generate_course_trace:
  "\<exists>tr. events (snd (generate_course lib data w)) = events w @ tr
     \<and> prefix (stage_events tr) pipeline_order
     \<and> ((\<exists>a. fst (generate_course lib data w) = Inr (Acknowledged a)) \<longrightarrow>
          stage_events tr = pipeline_order
          \<and> (\<exists>d. courses_collection (snd (generate_course lib data w))
                   = courses_collection w @ [CourseDoc d])
          \<and> (\<exists>m. modules_collection (snd (generate_course lib data w))
                   = modules_collection w @ [ModulesDoc m])
          \<and> (\<exists>l. lessons_collection (snd (generate_course lib data w))
                   = lessons_collection w @ [LessonsDoc l]))"
proof (cases "find_one_by_course_name (anc_course_name data) w")
  case (Some existing)
  then have "generate_course lib data w
      = (Inr (Message (''Course '' @ [CHR 0x27] @ anc_course_name data @ [CHR 0x27]
                              @ '' already exists.'')), w)"
    by (simp add: generate_course_def generate_course_body_def wrap_custom_def)
  then show ?thesis
    by (intro exI [of _ "[]"]) (simp add: stage_events_def)
next
  case None
  obtain r w' where d: "description_step lib data w = (r, w')"
    by (metis prod.exhaust)
  have g: "generate_course lib data w = wrap_custom (r, w')"
    using None d by (simp add: generate_course_def generate_course_body_def)
  have w: "snd (generate_course lib data w) = w'"
    by (simp add: g wrap_custom_world)
  from description_step_trace [OF d] obtain tr where
    t: "events w' = events w @ tr
           \<and> prefix (stage_events tr) pipeline_order
           \<and> ((\<exists>a. r = Inr a) \<longrightarrow>
                stage_events tr = pipeline_order
                \<and> (\<exists>d. courses_collection w' = courses_collection w @ [CourseDoc d])
                \<and> (\<exists>m. modules_collection w' = modules_collection w @ [ModulesDoc m])
                \<and> (\<exists>l. lessons_collection w' = lessons_collection w @ [LessonsDoc l]))" ..
  have ok: "(\<exists>a. fst (generate_course lib data w) = Inr (Acknowledged a)) \<longrightarrow>
          stage_events tr = pipeline_order
          \<and> (\<exists>d. courses_collection w' = courses_collection w @ [CourseDoc d])
          \<and> (\<exists>m. modules_collection w' = modules_collection w @ [ModulesDoc m])
          \<and> (\<exists>l. lessons_collection w' = lessons_collection w @ [LessonsDoc l])"
  proof
    assume "\<exists>a. fst (generate_course lib data w) = Inr (Acknowledged a)"
    then have "\<exists>a. r = Inr a"
      by (auto simp: g wrap_custom_ok)
    with t [THEN conjunct2, THEN conjunct2]
    show "stage_events tr = pipeline_order
          \<and> (\<exists>d. courses_collection w' = courses_collection w @ [CourseDoc d])
          \<and> (\<exists>m. modules_collection w' = modules_collection w @ [ModulesDoc m])
          \<and> (\<exists>l. lessons_collection w' = lessons_collection w @ [LessonsDoc l])"
      by (rule mp)
  qed
  show ?thesis
    unfolding w
    by (rule exI [of _ tr])
      (intro conjI t [THEN conjunct1] t [THEN conjunct2, THEN conjunct1] ok)
qed

lemma precedes_stage_events:
  assumes "a \<noteq> LlmCall" and "b \<noteq> LlmCall"
  shows "precedes a b (stage_events tr) = precedes a b tr"
  using assms by (induction tr) (auto simp: stage_events_def)

lemma prefix_pipeline_order_cases:
  assumes "prefix xs pipeline_order"
  shows "xs \<in> set (prefixes pipeline_order)"
  using assms by (simp add: in_set_prefixes)

lemma precedes_in_prefix:
  assumes "prefix xs pipeline_order"
  shows "precedes (Begins DescriptionStage) (DbInsert Courses) xs
       \<and> precedes (DbInsert Courses) (Begins ModuleStage) xs
       \<and> precedes (Begins ModuleStage) (DbInsert Modules) xs
       \<and> precedes (DbInsert Modules) (Begins LessonStage) xs
       \<and> precedes (Begins LessonStage) (DbInsert Lessons) xs"
proof -
  have "xs \<in> set (prefixes pipeline_order)"
    using assms by (rule prefix_pipeline_order_cases)
  then show ?thesis
    by (auto simp: pipeline_order_def)
qed

text \<open>The steps of a run that returns the acknowledgement.\<close>

lemma ack_updated: "(result :: ack) = Updated"
  by (cases result) simp

lemma lessons_step_success:
  assumes "lessons_step lib gm uid w = (Inr r, w')"
  shows "\<exists>ls w5.
      generate_lessons_for_each_module lib (cu_modules (md_curriculum gm)) uid
          (log_event (Begins LessonStage) w) = (Inr ls, w5)
      \<and> insert_one_document Lessons (LessonsDoc ls) w5 = (Inr Updated, w')"
proof -
  obtain g w5 where a:
    "generate_lessons_for_each_module lib (cu_modules (md_curriculum gm)) uid
        (log_event (Begins LessonStage) w) = (g, w5)"
    by (metis prod.exhaust)
  show ?thesis
  proof (cases g)
    case (Inl e)
    then show ?thesis using assms a by (simp add: lessons_step_def)
  next
    case (Inr ls)
    obtain j w7 where c: "insert_one_document Lessons (LessonsDoc ls) w5 = (j, w7)"
      by (metis prod.exhaust)
    have "j = Inr Updated \<and> w7 = w'"
      using assms a Inr c by (cases j) (simp_all add: lessons_step_def ack_updated)
    then show ?thesis using a Inr c by simp
  qed
qed

lemma modules_step_success:
  assumes "modules_step lib d uid w = (Inr r, w')"
  shows "\<exists>gm w3 w4.
      generate_module lib d (log_event (Begins ModuleStage) w) = (ModulesDict gm, w3)
      \<and> insert_one_document Modules (ModulesDoc gm) w3 = (Inr Updated, w4)
      \<and> lessons_step lib gm uid w4 = (Inr r, w')"
proof -
  obtain g w3 where a: "generate_module lib d (log_event (Begins ModuleStage) w) = (g, w3)"
    by (metis prod.exhaust)
  show ?thesis
  proof (cases g)
    case (ExceptionObject obj)
    then show ?thesis using assms a by (simp add: modules_step_def)
  next
    case (ModulesDict gm)
    obtain j w4 where c: "insert_one_document Modules (ModulesDoc gm) w3 = (j, w4)"
      by (metis prod.exhaust)
    have "j = Inr Updated \<and> lessons_step lib gm uid w4 = (Inr r, w')"
      using assms a ModulesDict c by (cases j) (simp_all add: modules_step_def ack_updated)
    then show ?thesis using a ModulesDict c by simp
  qed
qed

lemma description_step_success:
  assumes "description_step lib data w = (Inr r, w')"
  shows "\<exists>uid wu d w1 w2.
      unique_id_generator ''COURSE'' w = (uid, wu)
      \<and> generate_description data uid (log_event (Begins DescriptionStage) wu) = (Inr d, w1)
      \<and> insert_one_document Courses (CourseDoc d) w1 = (Inr Updated, w2)
      \<and> modules_step lib d uid w2 = (Inr r, w')"
proof -
  obtain uid wu where u: "unique_id_generator ''COURSE'' w = (uid, wu)"
    by (metis prod.exhaust)
  obtain g w1 where a:
    "generate_description data uid (log_event (Begins DescriptionStage) wu) = (g, w1)"
    by (metis prod.exhaust)
  show ?thesis
  proof (cases g)
    case (Inl e)
    then show ?thesis using assms u a by (simp add: description_step_def)
  next
    case (Inr d)
    obtain j w2 where c: "insert_one_document Courses (CourseDoc d) w1 = (j, w2)"
      by (metis prod.exhaust)
    have "j = Inr Updated \<and> modules_step lib d uid w2 = (Inr r, w')"
      using assms u a Inr c by (cases j) (simp_all add: description_step_def ack_updated)
    then show ?thesis using u a Inr c by simp
  qed
qed

lemma insert_one_document_written:
  assumes "insert_one_document c d w = (Inr a, w')"
  shows "collection c w' = collection c w @ [d]"
    and "c \<noteq> Courses \<Longrightarrow> courses_collection w' = courses_collection w"
    and "c \<noteq> Modules \<Longrightarrow> modules_collection w' = modules_collection w"
    and "c \<noteq> Lessons \<Longrightarrow> lessons_collection w' = lessons_collection w"
  using insert_one_document_cases [OF assms] by auto

lemma calls_only_db:
  assumes "calls_only w w'"
  shows "courses_collection w' = courses_collection w"
    and "modules_collection w' = modules_collection w"
    and "lessons_collection w' = lessons_collection w"
  using assms by (simp_all add: calls_only_def)

lemma log_event_db:
  "courses_collection (log_event e w) = courses_collection w"
  "modules_collection (log_event e w) = modules_collection w"
  "lessons_collection (log_event e w) = lessons_collection w"
  by (simp_all add: log_event_def)

lemma generate_course_success_chain:
  assumes "fst (generate_course lib data w) = Inr (Acknowledged a)"
  shows "\<exists>uid wu d w1 w2 gm w3 w4 ls w5.
      unique_id_generator ''COURSE'' w = (uid, wu)
    \<and> generate_description data uid (log_event (Begins DescriptionStage) wu) = (Inr d, w1)
    \<and> insert_one_document Courses (CourseDoc d) w1 = (Inr Updated, w2)
    \<and> courses_collection w2 = courses_collection w @ [CourseDoc d]
    \<and> generate_module lib d (log_event (Begins ModuleStage) w2) = (ModulesDict gm, w3)
    \<and> insert_one_document Modules (ModulesDoc gm) w3 = (Inr Updated, w4)
    \<and> modules_collection w4 = modules_collection w @ [ModulesDoc gm]
    \<and> generate_lessons_for_each_module lib (cu_modules (md_curriculum gm)) uid
          (log_event (Begins LessonStage) w4) = (Inr ls, w5)
    \<and> insert_one_document Lessons (LessonsDoc ls) w5
          = (Inr Updated, snd (generate_course lib data w))
    \<and> courses_collection (snd (generate_course lib data w))
          = courses_collection w @ [CourseDoc d]
    \<and> modules_collection (snd (generate_course lib data w))
          = modules_collection w @ [ModulesDoc gm]
    \<and> lessons_collection (snd (generate_course lib data w))
          = lessons_collection w @ [LessonsDoc ls]"
proof -
  let ?w' = "snd (generate_course lib data w)"
  have body: "fst (generate_course_body lib data w) = Inr (Acknowledged a)"
    using assms by (simp add: generate_course_def wrap_custom_ok)
  have none: "find_one_by_course_name (anc_course_name data) w = None"
    using body by (cases "find_one_by_course_name (anc_course_name data) w")
      (simp_all add: generate_course_body_def)
  have w': "snd (description_step lib data w) = ?w'"
    using none by (simp add: generate_course_def generate_course_body_def wrap_custom_world)
  have "fst (description_step lib data w) = Inr (Acknowledged a)"
    using body none by (simp add: generate_course_body_def)
  then have ds: "description_step lib data w = (Inr (Acknowledged a), ?w')"
    using w' by (metis prod.collapse)
  from description_step_success [OF ds] obtain uid wu d w1 w2 where
    u: "unique_id_generator ''COURSE'' w = (uid, wu)"
    and gd: "generate_description data uid (log_event (Begins DescriptionStage) wu) = (Inr d, w1)"
    and i1: "insert_one_document Courses (CourseDoc d) w1 = (Inr Updated, w2)"
    and ms: "modules_step lib d uid w2 = (Inr (Acknowledged a), ?w')"
    by blast
  from modules_step_success [OF ms] obtain gm w3 w4 where
    gmod: "generate_module lib d (log_event (Begins ModuleStage) w2) = (ModulesDict gm, w3)"
    and i2: "insert_one_document Modules (ModulesDoc gm) w3 = (Inr Updated, w4)"
    and ls: "lessons_step lib gm uid w4 = (Inr (Acknowledged a), ?w')"
    by blast
  from lessons_step_success [OF ls] obtain lsn w5 where
    gl: "generate_lessons_for_each_module lib (cu_modules (md_curriculum gm)) uid
          (log_event (Begins LessonStage) w4) = (Inr lsn, w5)"
    and i3: "insert_one_document Lessons (LessonsDoc lsn) w5 = (Inr Updated, ?w')"
    by blast
  note f0 = calls_only_db [OF unique_id_frame [OF u]]
  note f1 = calls_only_db [OF generate_description_frame [OF gd]]
  note f2 = calls_only_db [OF generate_module_frame [OF gmod]]
  note f3 = calls_only_db [OF generate_lessons_frame [OF gl]]
  note n1 = insert_one_document_written [OF i1]
  note n2 = insert_one_document_written [OF i2]
  note n3 = insert_one_document_written [OF i3]
  have c2: "courses_collection w2 = courses_collection w @ [CourseDoc d]"
    using n1(1) f1(1) f0(1) by (simp add: collection_def log_event_db)
  have m2: "modules_collection w2 = modules_collection w"
    using n1(3) f1(2) f0(2) by (simp add: log_event_db)
  have l2: "lessons_collection w2 = lessons_collection w"
    using n1(4) f1(3) f0(3) by (simp add: log_event_db)
  have c4: "courses_collection w4 = courses_collection w @ [CourseDoc d]"
    using n2(2) f2(1) c2 by (simp add: log_event_db)
  have m4: "modules_collection w4 = modules_collection w @ [ModulesDoc gm]"
    using n2(1) f2(2) m2 by (simp add: collection_def log_event_db)
  have l4: "lessons_collection w4 = lessons_collection w"
    using n2(4) f2(3) l2 by (simp add: log_event_db)
  have c6: "courses_collection ?w' = courses_collection w @ [CourseDoc d]"
    using n3(2) f3(1) c4 by (simp add: log_event_db)
  have m6: "modules_collection ?w' = modules_collection w @ [ModulesDoc gm]"
    using n3(3) f3(2) m4 by (simp add: log_event_db)
  have l6: "lessons_collection ?w' = lessons_collection w @ [LessonsDoc lsn]"
    using n3(1) f3(3) l4 by (simp add: collection_def log_event_db)
  show ?thesis
    by (intro exI conjI) (rule u gd i1 c2 gmod i2 m4 gl i3 c6 m6 l6)+
qed

text \<open>
  Claim C1. The events that a run of \<open>generate_course\<close> adds to the trace, calls of
  the provider left out, are an initial part of: description stage begins, document
  written to the courses collection, module stage begins, document written to the
  modules collection, lesson stage begins, document written to the lessons
  collection; a run that returns the acknowledgement has produced all six, and has
  added exactly one document to each of the three collections. In every run, also one
  that fails on the way, the module stage does not begin before the write to the
  courses collection, the lesson stage does not begin before the write to the modules
  collection, and the write to the lessons collection comes last.

  In a run that returns the acknowledgement, the document written to each collection
  is the result of its stage: the course document \<open>d\<close> that \<open>generate_description\<close>
  returns is the one written to the courses collection, and it is there in the world
  \<open>w2\<close> in which the module stage begins; the dictionary \<open>gm\<close> that \<open>generate_module\<close>
  returns for \<open>d\<close> is the one written to the modules collection, and it is there in
  the world \<open>w4\<close> in which the lesson stage begins; the output \<open>ls\<close> that
  \<open>generate_lessons_for_each_module\<close> returns for the modules of \<open>gm\<close> is the one
  written to the lessons collection, by the last step of the run.
\<close>

theorem generate_course_stage_order:
  "events (snd (generate_course lib data w)) = events w @ run_trace lib data w
   \<and> prefix (stage_events (run_trace lib data w)) pipeline_order
   \<and> ((\<exists>a. fst (generate_course lib data w) = Inr (Acknowledged a)) \<longrightarrow>
        stage_events (run_trace lib data w) = pipeline_order
        \<and> (\<exists>d. courses_collection (snd (generate_course lib data w))
                 = courses_collection w @ [CourseDoc d])
        \<and> (\<exists>m. modules_collection (snd (generate_course lib data w))
                 = modules_collection w @ [ModulesDoc m])
        \<and> (\<exists>l. lessons_collection (snd (generate_course lib data w))
                 = lessons_collection w @ [LessonsDoc l]))
   \<and> precedes (Begins DescriptionStage) (DbInsert Courses) (run_trace lib data w)
   \<and> precedes (DbInsert Courses) (Begins ModuleStage) (run_trace lib data w)
   \<and> precedes (Begins ModuleStage) (DbInsert Modules) (run_trace lib data w)
   \<and> precedes (DbInsert Modules) (Begins LessonStage) (run_trace lib data w)
   \<and> precedes (Begins LessonStage) (DbInsert Lessons) (run_trace lib data w)
   \<and> ((\<exists>a. fst (generate_course lib data w) = Inr (Acknowledged a)) \<longrightarrow>
        (\<exists>uid wu d w1 w2 gm w3 w4 ls w5.
           unique_id_generator ''COURSE'' w = (uid, wu)
         \<and> generate_description data uid (log_event (Begins DescriptionStage) wu) = (Inr d, w1)
         \<and> insert_one_document Courses (CourseDoc d) w1 = (Inr Updated, w2)
         \<and> courses_collection w2 = courses_collection w @ [CourseDoc d]
         \<and> generate_module lib d (log_event (Begins ModuleStage) w2) = (ModulesDict gm, w3)
         \<and> insert_one_document Modules (ModulesDoc gm) w3 = (Inr Updated, w4)
         \<and> modules_collection w4 = modules_collection w @ [ModulesDoc gm]
         \<and> generate_lessons_for_each_module lib (cu_modules (md_curriculum gm)) uid
               (log_event (Begins LessonStage) w4) = (Inr ls, w5)
         \<and> insert_one_document Lessons (LessonsDoc ls) w5
               = (Inr Updated, snd (generate_course lib data w))
         \<and> courses_collection (snd (generate_course lib data w))
               = courses_collection w @ [CourseDoc d]
         \<and> modules_collection (snd (generate_course lib data w))
               = modules_collection w @ [ModulesDoc gm]
         \<and> lessons_collection (snd (generate_course lib data w))
               = lessons_collection w @ [LessonsDoc ls]))"
proof -
  from generate_course_trace [of lib data w] obtain tr where
    t: "events (snd (generate_course lib data w)) = events w @ tr
     \<and> prefix (stage_events tr) pipeline_order
     \<and> ((\<exists>a. fst (generate_course lib data w) = Inr (Acknowledged a)) \<longrightarrow>
          stage_events tr = pipeline_order
          \<and> (\<exists>d. courses_collection (snd (generate_course lib data w))
                   = courses_collection w @ [CourseDoc d])
          \<and> (\<exists>m. modules_collection (snd (generate_course lib data w))
                   = modules_collection w @ [ModulesDoc m])
          \<and> (\<exists>l. lessons_collection (snd (generate_course lib data w))
                   = lessons_collection w @ [LessonsDoc l]))" ..
  have r: "run_trace lib data w = tr"
    using t [THEN conjunct1] by (simp add: run_trace_def)
  note p = t [THEN conjunct2, THEN conjunct1]
  have ord: "precedes (Begins DescriptionStage) (DbInsert Courses) (stage_events tr)
       \<and> precedes (DbInsert Courses) (Begins ModuleStage) (stage_events tr)
       \<and> precedes (Begins ModuleStage) (DbInsert Modules) (stage_events tr)
       \<and> precedes (DbInsert Modules) (Begins LessonStage) (stage_events tr)
       \<and> precedes (Begins LessonStage) (DbInsert Lessons) (stage_events tr)"
    using p by (rule precedes_in_prefix)
  have ord': "precedes (Begins DescriptionStage) (DbInsert Courses) tr
       \<and> precedes (DbInsert Courses) (Begins ModuleStage) tr
       \<and> precedes (Begins ModuleStage) (DbInsert Modules) tr
       \<and> precedes (DbInsert Modules) (Begins LessonStage) tr
       \<and> precedes (Begins LessonStage) (DbInsert Lessons) tr"
    using ord by (simp add: precedes_stage_events)
  have chain: "(\<exists>a. fst (generate_course lib data w) = Inr (Acknowledged a)) \<longrightarrow>
        (\<exists>uid wu d w1 w2 gm w3 w4 ls w5.
           unique_id_generator ''COURSE'' w = (uid, wu)
         \<and> generate_description data uid (log_event (Begins DescriptionStage) wu) = (Inr d, w1)
         \<and> insert_one_document Courses (CourseDoc d) w1 = (Inr Updated, w2)
         \<and> courses_collection w2 = courses_collection w @ [CourseDoc d]
         \<and> generate_module lib d (log_event (Begins ModuleStage) w2) = (ModulesDict gm, w3)
         \<and> insert_one_document Modules (ModulesDoc gm) w3 = (Inr Updated, w4)
         \<and> modules_collection w4 = modules_collection w @ [ModulesDoc gm]
         \<and> generate_lessons_for_each_module lib (cu_modules (md_curriculum gm)) uid
               (log_event (Begins LessonStage) w4) = (Inr ls, w5)
         \<and> insert_one_document Lessons (LessonsDoc ls) w5
               = (Inr Updated, snd (generate_course lib data w))
         \<and> courses_collection (snd (generate_course lib data w))
               = courses_collection w @ [CourseDoc d]
         \<and> modules_collection (snd (generate_course lib data w))
               = modules_collection w @ [ModulesDoc gm]
         \<and> lessons_collection (snd (generate_course lib data w))
               = lessons_collection w @ [LessonsDoc ls])"
  proof
    assume "\<exists>a. fst (generate_course lib data w) = Inr (Acknowledged a)"
    then obtain a where "fst (generate_course lib data w) = Inr (Acknowledged a)" ..
    then show "(\<exists>uid wu d w1 w2 gm w3 w4 ls w5.
           unique_id_generator ''COURSE'' w = (uid, wu)
         \<and> generate_description data uid (log_event (Begins DescriptionStage) wu) = (Inr d, w1)
         \<and> insert_one_document Courses (CourseDoc d) w1 = (Inr Updated, w2)
         \<and> courses_collection w2 = courses_collection w @ [CourseDoc d]
         \<and> generate_module lib d (log_event (Begins ModuleStage) w2) = (ModulesDict gm, w3)
         \<and> insert_one_document Modules (ModulesDoc gm) w3 = (Inr Updated, w4)
         \<and> modules_collection w4 = modules_collection w @ [ModulesDoc gm]
         \<and> generate_lessons_for_each_module lib (cu_modules (md_curriculum gm)) uid
               (log_event (Begins LessonStage) w4) = (Inr ls, w5)
         \<and> insert_one_document Lessons (LessonsDoc ls) w5
               = (Inr Updated, snd (generate_course lib data w))
         \<and> courses_collection (snd (generate_course lib data w))
               = courses_collection w @ [CourseDoc d]
         \<and> modules_collection (snd (generate_course lib data w))
               = modules_collection w @ [ModulesDoc gm]
         \<and> lessons_collection (snd (generate_course lib data w))
               = lessons_collection w @ [LessonsDoc ls])"
      by (rule generate_course_success_chain)
  qed
  have first: "events (snd (generate_course lib data w)) = events w @ run_trace lib data w
   \<and> prefix (stage_events (run_trace lib data w)) pipeline_order
   \<and> ((\<exists>a. fst (generate_course lib data w) = Inr (Acknowledged a)) \<longrightarrow>
        stage_events (run_trace lib data w) = pipeline_order
        \<and> (\<exists>d. courses_collection (snd (generate_course lib data w))
                 = courses_collection w @ [CourseDoc d])
        \<and> (\<exists>m. modules_collection (snd (generate_course lib data w))
                 = modules_collection w @ [ModulesDoc m])
        \<and> (\<exists>l. lessons_collection (snd (generate_course lib data w))
                 = lessons_collection w @ [LessonsDoc l]))"
    unfolding r using t by blast
  have ord'': "precedes (Begins DescriptionStage) (DbInsert Courses) (run_trace lib data w)
       \<and> precedes (DbInsert Courses) (Begins ModuleStage) (run_trace lib data w)
       \<and> precedes (Begins ModuleStage) (DbInsert Modules) (run_trace lib data w)
       \<and> precedes (DbInsert Modules) (Begins LessonStage) (run_trace lib data w)
       \<and> precedes (Begins LessonStage) (DbInsert Lessons) (run_trace lib data w)"
    unfolding r by (rule ord')
  note f1 = first [THEN conjunct1]
  note f2 = first [THEN conjunct2, THEN conjunct1]
  note f3 = first [THEN conjunct2, THEN conjunct2]
  note o1 = ord'' [THEN conjunct1]
  note o2 = ord'' [THEN conjunct2, THEN conjunct1]
  note o3 = ord'' [THEN conjunct2, THEN conjunct2, THEN conjunct1]
  note o4 = ord'' [THEN conjunct2, THEN conjunct2, THEN conjunct2, THEN conjunct1]
  note o5 = ord'' [THEN conjunct2, THEN conjunct2, THEN conjunct2, THEN conjunct2]
  show ?thesis
    by (intro conjI f1 f2 f3 o1 o2 o3 o4 o5 chain)
qed

theorem generate_course_stage_order_witness:
  "fst (generate_course demo_library python_request demo_world) = Inr (Acknowledged Updated)
   \<and> stage_events (run_trace demo_library python_request demo_world) = pipeline_order
   \<and> run_trace demo_library python_request demo_world
       = [Begins DescriptionStage, DbInsert Courses,
          Begins ModuleStage, LlmCall, LlmCall, LlmCall, DbInsert Modules,
          Begins LessonStage, LlmCall, LlmCall, LlmCall, DbInsert Lessons]
   \<and> fst (generate_description python_request ''COURSE_00000000''
             (log_event (Begins DescriptionStage) demo_world))
       = Inr \<lparr> cd_course_id = ''COURSE_00000000'', cd_course_name = ''Python Basics'',
               cd_level = ''beginner'', cd_image_uri = ''python.png'',
               cd_created_at = ''2025-01-01T00:00:00'', cd_is_popular = False,
               cd_is_trending = False, cd_description = ''Learn Python from scratch.'' \<rparr>
   \<and> courses_collection (snd (generate_course demo_library python_request demo_world))
       = [CourseDoc \<lparr> cd_course_id = ''COURSE_00000000'', cd_course_name = ''Python Basics'',
               cd_level = ''beginner'', cd_image_uri = ''python.png'',
               cd_created_at = ''2025-01-01T00:00:00'', cd_is_popular = False,
               cd_is_trending = False, cd_description = ''Learn Python from scratch.'' \<rparr>]
   \<and> modules_collection (snd (generate_course demo_library python_request demo_world))
       = [ModulesDoc \<lparr> md_course_id = ''COURSE_00000000'', md_level = ''beginner'',
              md_curriculum =
                \<lparr> cu_course = ''Python Basics'', cu_duration = ''4 weeks'',
                  cu_num_modules = 1, cu_tools = [''Python''],
                  cu_modules =
                    [\<lparr> m_title = Some ''Lists'', m_description = Some ''Work with lists.'',
                       m_learning_objectives =
                         Some [''Unable to generate learning objectives''],
                       m_prerequisites = Some ([], []),
                       m_key_topics = Some [''Unable to generate key topics''],
                       m_practical_applications =
                         Some [''Unable to generate practical applications''],
                       m_estimated_completion_time = Some ''Unknown'',
                       m_module_id = Some ''MODULE_00000000'' \<rparr>] \<rparr> \<rparr>]
   \<and> lessons_collection (snd (generate_course demo_library python_request demo_world))
       = [LessonsDoc \<lparr> mlo_course_id = ''COURSE_00000000'',
              mlo_modules =
                [\<lparr> mlc_module_id = ''MODULE_00000000'',
                   mlc_lessons =
                     [\<lparr> lesson_id = ''LESSON_00000000'', lesson_title = ''Lists'',
                        lesson_type = ReadAndExecute, lesson_content = [],
                        lesson_instruction = Some [], lesson_expected_output = Some [],
                        lesson_answer = Some [], lesson_outline = None \<rparr>] \<rparr>] \<rparr>]"
proof -
  have ok: "fst (generate_course demo_library python_request demo_world)
              = Inr (Acknowledged Updated)"
    by code_simp
  have tr: "run_trace demo_library python_request demo_world
       = [Begins DescriptionStage, DbInsert Courses,
          Begins ModuleStage, LlmCall, LlmCall, LlmCall, DbInsert Modules,
          Begins LessonStage, LlmCall, LlmCall, LlmCall, DbInsert Lessons]"
    by code_simp
  have ex: "\<exists>a. fst (generate_course demo_library python_request demo_world)
              = Inr (Acknowledged a)"
    using ok by blast
  note t = generate_course_stage_order [of demo_library python_request demo_world]
  have st: "stage_events (run_trace demo_library python_request demo_world) = pipeline_order"
    using t ex by blast
  have u: "unique_id_generator ''COURSE'' demo_world = (''COURSE_00000000'', demo_world)"
    by code_simp
  have gd: "fst (generate_description python_request ''COURSE_00000000''
             (log_event (Begins DescriptionStage) demo_world))
       = Inr \<lparr> cd_course_id = ''COURSE_00000000'', cd_course_name = ''Python Basics'',
               cd_level = ''beginner'', cd_image_uri = ''python.png'',
               cd_created_at = ''2025-01-01T00:00:00'', cd_is_popular = False,
               cd_is_trending = False, cd_description = ''Learn Python from scratch.'' \<rparr>"
    by code_simp
  have e0: "courses_collection demo_world = []"
    by (simp add: demo_world_def quiet_world_def)
  from t ex obtain uid wu d w1 where
    c: "unique_id_generator ''COURSE'' demo_world = (uid, wu)"
       "generate_description python_request uid (log_event (Begins DescriptionStage) wu)
          = (Inr d, w1)"
       "courses_collection (snd (generate_course demo_library python_request demo_world))
          = courses_collection demo_world @ [CourseDoc d]"
    by blast
  have uw: "uid = ''COURSE_00000000''" "wu = demo_world"
    using c(1) u by simp_all
  have "fst (generate_description python_request ''COURSE_00000000''
               (log_event (Begins DescriptionStage) demo_world)) = Inr d"
    using c(2) unfolding uw by simp
  then have "d = \<lparr> cd_course_id = ''COURSE_00000000'', cd_course_name = ''Python Basics'',
               cd_level = ''beginner'', cd_image_uri = ''python.png'',
               cd_created_at = ''2025-01-01T00:00:00'', cd_is_popular = False,
               cd_is_trending = False, cd_description = ''Learn Python from scratch.'' \<rparr>"
    unfolding gd by simp
  then have cc: "courses_collection (snd (generate_course demo_library python_request
                                             demo_world))
       = [CourseDoc \<lparr> cd_course_id = ''COURSE_00000000'', cd_course_name = ''Python Basics'',
               cd_level = ''beginner'', cd_image_uri = ''python.png'',
               cd_created_at = ''2025-01-01T00:00:00'', cd_is_popular = False,
               cd_is_trending = False, cd_description = ''Learn Python from scratch.'' \<rparr>]"
    using c(3) e0 by simp
  have mc: "modules_collection (snd (generate_course demo_library python_request demo_world))
       = [ModulesDoc \<lparr> md_course_id = ''COURSE_00000000'', md_level = ''beginner'',
              md_curriculum =
                \<lparr> cu_course = ''Python Basics'', cu_duration = ''4 weeks'',
                  cu_num_modules = 1, cu_tools = [''Python''],
                  cu_modules =
                    [\<lparr> m_title = Some ''Lists'', m_description = Some ''Work with lists.'',
                       m_learning_objectives =
                         Some [''Unable to generate learning objectives''],
                       m_prerequisites = Some ([], []),
                       m_key_topics = Some [''Unable to generate key topics''],
                       m_practical_applications =
                         Some [''Unable to generate practical applications''],
                       m_estimated_completion_time = Some ''Unknown'',
                       m_module_id = Some ''MODULE_00000000'' \<rparr>] \<rparr> \<rparr>]"
    by code_simp
  have lc: "lessons_collection (snd (generate_course demo_library python_request demo_world))
       = [LessonsDoc \<lparr> mlo_course_id = ''COURSE_00000000'',
              mlo_modules =
                [\<lparr> mlc_module_id = ''MODULE_00000000'',
                   mlc_lessons =
                     [\<lparr> lesson_id = ''LESSON_00000000'', lesson_title = ''Lists'',
                        lesson_type = ReadAndExecute, lesson_content = [],
                        lesson_instruction = Some [], lesson_expected_output = Some [],
                        lesson_answer = Some [], lesson_outline = None \<rparr>] \<rparr>] \<rparr>]"
    by code_simp
  show ?thesis
    by (intro conjI ok st tr gd cc mc lc)
qed



section \<open>Registration and login\<close>

lemma select_request_answers:
  assumes "select_answers s"
  shows "select_request email s
           = (Inr (select_by_email email s), s \<lparr> select_faults := tl (select_faults s) \<rparr>)"
  using assms
  by (cases s) (auto simp: select_request_def select_answers_def split: list.splits option.splits)





lemma get_user_by_email_answers:
  assumes "select_answers s"
  shows "get_user_by_email email s
           = (Inr (case select_by_email email s of [] \<Rightarrow> None | u # rest \<Rightarrow> Some u),
              s \<lparr> select_faults := tl (select_faults s) \<rparr>)"
  by (simp add: get_user_by_email_def select_request_answers [OF assms] split: list.splits)








lemma select_shift [simp]:
  "insert_returns_row (s \<lparr> select_faults := f \<rparr>) = insert_returns_row s"
  "stored_row d (s \<lparr> select_faults := f \<rparr>) = stored_row d s"
  by (simp_all add: insert_returns_row_def stored_row_def)

lemma login_failure_wrapped:
  assumes "select_answers s"
    and "select_by_email email s = []
         \<or> (\<exists>user others. select_by_email email s = user # others
                \<and> pwd_verify cr password (u_password user) = Inr False)"
  shows "login cr email password s
           = Inl (CustomException (HTTPException 401 ''Incorrect email or password''))"
  using assms(2)
  by (auto simp: login_def authenticate_user_def verify_password_def
      get_user_by_email_answers [OF assms(1)])

lemma login_success:
  assumes "select_answers s" and "select_by_email email s = user # others"
    and "pwd_verify cr password (u_password user) = Inr True"
    and "jwt_encode cr (u_id user) = Inr encoded_jwt"
  shows "login cr email password s
           = Inr \<lparr> access_token = encoded_jwt, token_type = ''bearer'',
                   token_user = response_of user \<rparr>"
  using assms(2,3,4)
  by (simp add: login_def authenticate_user_def verify_password_def create_access_token_def
      get_user_by_email_answers [OF assms(1)])




section \<open>Login\<close>

text \<open>
  Claim C3 at a failing login. \<open>authenticate_user\<close> raises HTTP 401 for an unknown
  email and for a wrong password, and \<open>login\<close> catches it with every other
  exception: what leaves \<open>login\<close> is a \<open>CustomException\<close> that wraps the HTTP 401, not
  the HTTP 401. A login with the right password returns the token, the token type
  \<open>bearer\<close> and the data of the user.
\<close>

theorem login_wraps_unauthorized:
  "authenticate_user toy_crypto ''nobody@example.com'' ''wonderland'' one_user_store
     = Inl (HTTPException 401 ''Incorrect email or password'')
   \<and> login toy_crypto ''nobody@example.com'' ''wonderland'' one_user_store
       = Inl (CustomException (HTTPException 401 ''Incorrect email or password''))
   \<and> login toy_crypto ''alice@example.com'' ''looking-glass'' one_user_store
       = Inl (CustomException (HTTPException 401 ''Incorrect email or password''))
   \<and> login toy_crypto ''alice@example.com'' ''wonderland'' one_user_store
       = Inr \<lparr> access_token = ''token-for-u1'', token_type = ''bearer'',
               token_user = response_of alice \<rparr>"
  by code_simp

section \<open>How failures are signalled\<close>




























end
